theory Spec2Isabelle
  imports Main "HOL-Library.Char_ord" "HOL-Library.List_Lexorder" "HOL-Library.Product_Lexorder"
    "HOL-Library.Sublist"
begin

section \<open>Data model: the tables of the migration\<close>

text \<open>
  The tables of \<^verbatim>\<open>supabase/migrations/20251106004102_...sql\<close>, one record per table, one
  field per column, a column without \<^verbatim>\<open>NOT NULL\<close> as an option. A UUID and a TEXT are
  strings, a TIMESTAMPTZ is a number of milliseconds, an INTEGER is an \<open>int\<close> (its 32-bit
  range is checked where a statement writes it). A DECIMAL(10,2) is the exact number of
  hundredths it holds, as an \<open>int\<close>: the client multiplies and adds such values in JavaScript
  numbers, which is exact on them far beyond the ten digits the column accepts.
  The table \<^verbatim>\<open>auth.users\<close> belongs to the platform and is not modelled: a signed-in user exists.
\<close>

type_synonym uuid = string
type_synonym timestamp = nat
type_synonym amount = int

datatype app_role = role_admin | role_user

record user_role_row =
  ur_id :: uuid
  ur_user_id :: uuid
  ur_role :: app_role
  ur_created_at :: "timestamp option"

record product_row =
  product_id :: uuid
  product_name :: string
  product_slug :: string
  product_description :: "string option"
  product_price :: amount
  product_stock :: int
  product_category_id :: "uuid option"
  product_image_url :: "string option"
  product_dosage :: "string option"
  product_is_popular :: "bool option"
  product_created_at :: "timestamp option"
  product_updated_at :: "timestamp option"

record cart_row =
  cart_id :: uuid
  cart_user_id :: uuid
  cart_created_at :: "timestamp option"
  cart_updated_at :: "timestamp option"

record cart_item_row =
  ci_id :: uuid
  ci_cart_id :: uuid
  ci_product_id :: uuid
  ci_quantity :: int
  ci_created_at :: "timestamp option"

record order_row =
  order_id :: uuid
  order_user_id :: uuid
  order_number :: string
  order_total_amount :: amount
  order_status :: string
  order_payment_method :: "string option"
  order_shipping_address :: string
  order_created_at :: "timestamp option"
  order_updated_at :: "timestamp option"

record order_item_row =
  oi_id :: uuid
  oi_order_id :: uuid
  oi_product_id :: "uuid option"
  oi_product_name :: string
  oi_product_price :: amount
  oi_quantity :: int
  oi_subtotal :: amount
  oi_created_at :: "timestamp option"

record database =
  user_roles :: "user_role_row list"
  products :: "product_row list"
  carts :: "cart_row list"
  cart_items :: "cart_item_row list"
  orders :: "order_row list"
  order_items :: "order_item_row list"

subsection \<open>Column types\<close>

definition fits_integer :: "int \<Rightarrow> bool" where
  "fits_integer x = (- 2147483648 \<le> x \<and> x \<le> 2147483647)"

definition fits_decimal_10_2 :: "amount \<Rightarrow> bool" where
  "fits_decimal_10_2 x = (- 10000000000 < x \<and> x < 10000000000)"

subsection \<open>Row-level security\<close>

text \<open>
  \<^verbatim>\<open>has_role\<close> and the policies of the migration. \<open>auth\<close> is \<^verbatim>\<open>auth.uid()\<close>: the id of the
  signed-in user, or NULL. A permissive policy \<^verbatim>\<open>FOR ALL\<close> with only a \<^verbatim>\<open>USING\<close> clause
  checks the same expression on the rows a statement writes.
\<close>

definition has_role :: "database \<Rightarrow> uuid \<Rightarrow> app_role \<Rightarrow> bool" where
  "has_role db u r = (\<exists>x \<in> set (user_roles db). ur_user_id x = u \<and> ur_role x = r)"

definition is_admin :: "database \<Rightarrow> uuid option \<Rightarrow> bool" where
  "is_admin db auth = (case auth of None \<Rightarrow> False | Some u \<Rightarrow> has_role db u role_admin)"

text \<open>"Users can view their own cart", "Users can manage their own cart".\<close>

definition policy_carts :: "uuid option \<Rightarrow> cart_row \<Rightarrow> bool" where
  "policy_carts auth c = (auth = Some (cart_user_id c))"

text \<open>"Users can view their own cart items", "Users can manage their own cart items".\<close>

definition policy_cart_items :: "database \<Rightarrow> uuid option \<Rightarrow> cart_item_row \<Rightarrow> bool" where
  "policy_cart_items db auth i =
     (\<exists>c \<in> set (carts db). cart_id c = ci_cart_id i \<and> auth = Some (cart_user_id c))"

text \<open>"Users can create orders".\<close>

definition policy_orders_insert :: "uuid option \<Rightarrow> order_row \<Rightarrow> bool" where
  "policy_orders_insert auth ord = (auth = Some (order_user_id ord))"

text \<open>"Users can view their own orders", "Admins can view all orders".\<close>

definition policy_orders_select :: "database \<Rightarrow> uuid option \<Rightarrow> order_row \<Rightarrow> bool" where
  "policy_orders_select db auth ord = (auth = Some (order_user_id ord) \<or> is_admin db auth)"

text \<open>"Admins can update orders".\<close>

definition policy_orders_update :: "database \<Rightarrow> uuid option \<Rightarrow> bool" where
  "policy_orders_update db auth = is_admin db auth"

text \<open>"Users can insert order items".\<close>

definition policy_order_items_insert :: "database \<Rightarrow> uuid option \<Rightarrow> order_item_row \<Rightarrow> bool" where
  "policy_order_items_insert db auth i =
     (\<exists>ord \<in> set (orders db). order_id ord = oi_order_id i \<and> auth = Some (order_user_id ord))"

text \<open>
  "Anyone can view products" lets every caller read; the only policy that covers a write
  to products is "Admins can manage products".
\<close>

definition policy_products_write :: "database \<Rightarrow> uuid option \<Rightarrow> bool" where
  "policy_products_write db auth = is_admin db auth"

section \<open>The query interface\<close>

text \<open>
  A call of the client library resolves to \<^verbatim>\<open>{ data, error }\<close>; the handlers read the two
  fields. What the request meets on its way is the \<open>transport\<close>: it is \<open>Delivered\<close> and the
  database executes the statement, or it is \<open>Dropped\<close> and the call resolves with an error
  and the database untouched, or the awaited promise is \<open>Rejected\<close> and \<^verbatim>\<open>await\<close> throws.
\<close>

datatype pg_error =
    network_error
  | not_single_row
  | unique_violation
  | foreign_key_violation
  | rls_violation
  | out_of_range

datatype 'a response = Data 'a | Error pg_error

datatype 'a awaited = Resolved "'a response" | Throws

datatype transport = Delivered | Dropped | Rejected

definition request ::
  "transport \<Rightarrow> (database \<Rightarrow> pg_error + database \<times> 'a) \<Rightarrow> database \<Rightarrow> database \<times> 'a awaited" where
  "request t stmt db =
     (case t of
        Rejected \<Rightarrow> (db, Throws)
      | Dropped \<Rightarrow> (db, Resolved (Error network_error))
      | Delivered \<Rightarrow>
          (case stmt db of
             Inl err \<Rightarrow> (db, Resolved (Error err))
           | Inr (db', x) \<Rightarrow> (db', Resolved (Data x))))"

text \<open>
  What a handler's run depends on besides its page state and the database: the transport
  of its k-th call, the client's \<^verbatim>\<open>Date.now()\<close>, the server's \<^verbatim>\<open>now()\<close> at the k-th call and
  the result of \<^verbatim>\<open>gen_random_uuid()\<close> for the i-th row that the k-th call inserts.
\<close>

record env =
  net :: "nat \<Rightarrow> transport"
  date_now :: nat
  db_now :: "nat \<Rightarrow> timestamp"
  gen_random_uuid :: "nat \<Rightarrow> nat \<Rightarrow> uuid"

text \<open>\<^verbatim>\<open>.single()\<close>: the one row of the result, an error for none or several.\<close>

definition single :: "'a list \<Rightarrow> pg_error + 'a" where
  "single rows = (case rows of [x] \<Rightarrow> Inr x | _ \<Rightarrow> Inl not_single_row)"

subsection \<open>Statements on orders and order items\<close>

text \<open>The object literal that \<^verbatim>\<open>handleCheckout\<close> inserts into orders.\<close>

record order_insert =
  ins_user_id :: uuid
  ins_order_number :: string
  ins_total_amount :: amount
  ins_status :: string
  ins_payment_method :: string
  ins_shipping_address :: string

text \<open>
  \<^verbatim>\<open>.from("orders").insert({...}).select().single()\<close>: the id and both timestamps take their
  column defaults, the new row is returned.
\<close>

definition insert_order ::
  "uuid option \<Rightarrow> uuid \<Rightarrow> timestamp \<Rightarrow> order_insert \<Rightarrow> database \<Rightarrow> pg_error + database \<times> order_row" where
  "insert_order auth new_id now v db =
     (let row = \<lparr>order_id = new_id, order_user_id = ins_user_id v,
                 order_number = ins_order_number v, order_total_amount = ins_total_amount v,
                 order_status = ins_status v, order_payment_method = Some (ins_payment_method v),
                 order_shipping_address = ins_shipping_address v,
                 order_created_at = Some now, order_updated_at = Some now\<rparr>
      in if \<not> fits_decimal_10_2 (ins_total_amount v) then Inl out_of_range
         else if \<not> policy_orders_insert auth row then Inl rls_violation
         else if new_id \<in> set (map order_id (orders db))
                 \<or> ins_order_number v \<in> set (map order_number (orders db)) then Inl unique_violation
         else Inr (db\<lparr>orders := orders db @ [row]\<rparr>, row))"

text \<open>One object of the array that \<^verbatim>\<open>handleCheckout\<close> inserts into order_items.\<close>

record order_item_insert =
  oins_order_id :: uuid
  oins_product_id :: uuid
  oins_product_name :: string
  oins_product_price :: amount
  oins_quantity :: int
  oins_subtotal :: amount

definition order_item_of_insert :: "uuid \<Rightarrow> timestamp \<Rightarrow> order_item_insert \<Rightarrow> order_item_row" where
  "order_item_of_insert new_id now v =
     \<lparr>oi_id = new_id, oi_order_id = oins_order_id v, oi_product_id = Some (oins_product_id v),
      oi_product_name = oins_product_name v, oi_product_price = oins_product_price v,
      oi_quantity = oins_quantity v, oi_subtotal = oins_subtotal v, oi_created_at = Some now\<rparr>"

text \<open>
  \<^verbatim>\<open>.from("order_items").insert(orderItems)\<close>: one INSERT statement for the whole array, so
  all rows are stored or none is.
\<close>

definition insert_order_items ::
  "uuid option \<Rightarrow> (nat \<Rightarrow> uuid) \<Rightarrow> timestamp \<Rightarrow> order_item_insert list \<Rightarrow> database
     \<Rightarrow> pg_error + database \<times> unit" where
  "insert_order_items auth ids now vs db =
     (let rows = map (\<lambda>(k, v). order_item_of_insert (ids k) now v) (enumerate 0 vs)
      in if \<exists>r \<in> set rows. \<not> (fits_decimal_10_2 (oi_product_price r) \<and> fits_integer (oi_quantity r)
                                 \<and> fits_decimal_10_2 (oi_subtotal r)) then Inl out_of_range
         else if \<exists>r \<in> set rows. \<not> policy_order_items_insert db auth r then Inl rls_violation
         else if \<not> distinct (map oi_id rows)
                 \<or> (\<exists>r \<in> set rows. oi_id r \<in> set (map oi_id (order_items db))) then Inl unique_violation
         else if \<exists>r \<in> set rows. oi_order_id r \<notin> set (map order_id (orders db))
                 \<or> (case oi_product_id r of None \<Rightarrow> False
                     | Some p \<Rightarrow> p \<notin> set (map product_id (products db))) then Inl foreign_key_violation
         else Inr (db\<lparr>order_items := order_items db @ rows\<rparr>, ()))"

text \<open>
  \<^verbatim>\<open>.from("orders").update({ status }).eq("id", orderId)\<close>. The rows the caller may update
  are those the policy passes; the trigger \<^verbatim>\<open>update_orders_updated_at\<close> runs
  \<^verbatim>\<open>update_updated_at_column()\<close> before each row is written.
\<close>

definition update_updated_at_column_order :: "timestamp \<Rightarrow> order_row \<Rightarrow> order_row" where
  "update_updated_at_column_order now new = new\<lparr>order_updated_at := Some now\<rparr>"

definition update_order_status ::
  "uuid option \<Rightarrow> timestamp \<Rightarrow> uuid \<Rightarrow> string \<Rightarrow> database \<Rightarrow> pg_error + database \<times> unit" where
  "update_order_status auth now oid st db =
     Inr (db\<lparr>orders :=
            map (\<lambda>ord. if order_id ord = oid \<and> policy_orders_select db auth ord
                          \<and> policy_orders_update db auth
                        then update_updated_at_column_order now (ord\<lparr>order_status := st\<rparr>)
                        else ord) (orders db)\<rparr>, ())"

subsection \<open>Statements on products\<close>

definition update_updated_at_column_product :: "timestamp \<Rightarrow> product_row \<Rightarrow> product_row" where
  "update_updated_at_column_product now new = new\<lparr>product_updated_at := Some now\<rparr>"

text \<open>
  \<^verbatim>\<open>.from("products").update({ stock }).eq("id", productId)\<close>. A caller the policy does not
  pass updates no row, and that is not an error.
\<close>

definition update_product_stock ::
  "uuid option \<Rightarrow> timestamp \<Rightarrow> uuid \<Rightarrow> int \<Rightarrow> database \<Rightarrow> pg_error + database \<times> unit" where
  "update_product_stock auth now pid new_stock db =
     (if \<not> fits_integer new_stock then Inl out_of_range
      else Inr (db\<lparr>products :=
                  map (\<lambda>p. if product_id p = pid \<and> policy_products_write db auth
                            then update_updated_at_column_product now (p\<lparr>product_stock := new_stock\<rparr>)
                            else p) (products db)\<rparr>, ()))"

subsection \<open>Statements on carts and cart items\<close>

text \<open>\<^verbatim>\<open>.from("carts").select("id").eq("user_id", userId).single()\<close>\<close>

definition select_cart :: "uuid option \<Rightarrow> uuid \<Rightarrow> database \<Rightarrow> pg_error + database \<times> cart_row" where
  "select_cart auth uid db =
     (case single (filter (\<lambda>c. cart_user_id c = uid \<and> policy_carts auth c) (carts db)) of
        Inl err \<Rightarrow> Inl err
      | Inr c \<Rightarrow> Inr (db, c))"

text \<open>\<^verbatim>\<open>.from("carts").insert({ user_id }).select("id").single()\<close>\<close>

definition insert_cart ::
  "uuid option \<Rightarrow> uuid \<Rightarrow> timestamp \<Rightarrow> uuid \<Rightarrow> database \<Rightarrow> pg_error + database \<times> cart_row" where
  "insert_cart auth new_id now uid db =
     (let row = \<lparr>cart_id = new_id, cart_user_id = uid,
                 cart_created_at = Some now, cart_updated_at = Some now\<rparr>
      in if \<not> policy_carts auth row then Inl rls_violation
         else if new_id \<in> set (map cart_id (carts db))
                 \<or> uid \<in> set (map cart_user_id (carts db)) then Inl unique_violation
         else Inr (db\<lparr>carts := carts db @ [row]\<rparr>, row))"

text \<open>\<^verbatim>\<open>.from("cart_items").select("*").eq("cart_id", c).eq("product_id", p).single()\<close>\<close>

definition select_cart_item ::
  "uuid option \<Rightarrow> uuid \<Rightarrow> uuid \<Rightarrow> database \<Rightarrow> pg_error + database \<times> cart_item_row" where
  "select_cart_item auth cid pid db =
     (case single (filter (\<lambda>i. ci_cart_id i = cid \<and> ci_product_id i = pid
                               \<and> policy_cart_items db auth i) (cart_items db)) of
        Inl err \<Rightarrow> Inl err
      | Inr i \<Rightarrow> Inr (db, i))"

text \<open>\<^verbatim>\<open>.from("cart_items").update({ quantity }).eq("id", itemId)\<close>\<close>

definition update_cart_item_quantity ::
  "uuid option \<Rightarrow> uuid \<Rightarrow> int \<Rightarrow> database \<Rightarrow> pg_error + database \<times> unit" where
  "update_cart_item_quantity auth item_id q db =
     (if \<not> fits_integer q then Inl out_of_range
      else Inr (db\<lparr>cart_items :=
                  map (\<lambda>i. if ci_id i = item_id \<and> policy_cart_items db auth i
                            then i\<lparr>ci_quantity := q\<rparr> else i) (cart_items db)\<rparr>, ()))"

text \<open>\<^verbatim>\<open>.from("cart_items").insert({ cart_id, product_id, quantity })\<close>\<close>

definition insert_cart_item ::
  "uuid option \<Rightarrow> uuid \<Rightarrow> timestamp \<Rightarrow> uuid \<Rightarrow> uuid \<Rightarrow> int \<Rightarrow> database
     \<Rightarrow> pg_error + database \<times> unit" where
  "insert_cart_item auth new_id now cid pid q db =
     (let row = \<lparr>ci_id = new_id, ci_cart_id = cid, ci_product_id = pid, ci_quantity = q,
                 ci_created_at = Some now\<rparr>
      in if \<not> fits_integer q then Inl out_of_range
         else if \<not> policy_cart_items db auth row then Inl rls_violation
         else if new_id \<in> set (map ci_id (cart_items db))
                 \<or> (cid, pid) \<in> set (map (\<lambda>i. (ci_cart_id i, ci_product_id i)) (cart_items db))
              then Inl unique_violation
         else if cid \<notin> set (map cart_id (carts db)) \<or> pid \<notin> set (map product_id (products db))
              then Inl foreign_key_violation
         else Inr (db\<lparr>cart_items := cart_items db @ [row]\<rparr>, ()))"

text \<open>\<^verbatim>\<open>.from("cart_items").delete().eq("cart_id", cartId)\<close>\<close>

definition delete_cart_items :: "uuid option \<Rightarrow> uuid \<Rightarrow> database \<Rightarrow> pg_error + database \<times> unit" where
  "delete_cart_items auth cid db =
     Inr (db\<lparr>cart_items :=
            filter (\<lambda>i. \<not> (ci_cart_id i = cid \<and> policy_cart_items db auth i)) (cart_items db)\<rparr>, ())"

text \<open>The interface \<^verbatim>\<open>CartItem\<close> of the cart page: a cart item with its product embedded.\<close>

record cart_product =
  cp_id :: uuid
  cp_name :: string
  cp_price :: amount
  cp_stock :: int
  cp_image_url :: "string option"

record cart_line =
  line_id :: uuid
  line_quantity :: int
  line_products :: cart_product

text \<open>
  \<^verbatim>\<open>.from("cart_items").select(`*, products (id, name, price, stock, image_url)`).eq("cart_id", c)\<close>:
  each visible item of the cart with the product it references. \<^verbatim>\<open>product_id\<close> is a
  foreign key that is never NULL, so every item has its product.
\<close>

definition cart_line_of :: "cart_item_row \<Rightarrow> product_row \<Rightarrow> cart_line" where
  "cart_line_of i p =
     \<lparr>line_id = ci_id i, line_quantity = ci_quantity i,
      line_products = \<lparr>cp_id = product_id p, cp_name = product_name p, cp_price = product_price p,
                        cp_stock = product_stock p, cp_image_url = product_image_url p\<rparr>\<rparr>"

definition select_cart_lines ::
  "uuid option \<Rightarrow> uuid \<Rightarrow> database \<Rightarrow> pg_error + database \<times> cart_line list" where
  "select_cart_lines auth cid db =
     Inr (db, concat (map (\<lambda>i. map (cart_line_of i)
                                  (filter (\<lambda>p. product_id p = ci_product_id i) (products db)))
                        (filter (\<lambda>i. ci_cart_id i = cid \<and> policy_cart_items db auth i) (cart_items db))))"

section \<open>The cart page (\<^verbatim>\<open>src/pages/Cart.tsx\<close>)\<close>

text \<open>
  The state of the component. \<open>usr\<close>, an argument of every handler, is the id of the
  \<^verbatim>\<open>user\<close> that \<^verbatim>\<open>useAuth()\<close> gives, the identity under which the requests are made.
\<close>

record cart_page =
  cartItems :: "cart_line list"
  cartId :: "uuid option"
  shippingAddress :: string

datatype thrown = thrown_error pg_error | thrown_rejection

datatype notice =
    no_notice
  | toast_error string
  | toast_caught thrown
  | toast_success string

text \<open>
  \<^verbatim>\<open>String.prototype.trim\<close> on the characters a \<open>char\<close> can hold: TAB, LF, VT, FF, CR, SPACE
  and the no-break space.
\<close>

definition is_white_space :: "char \<Rightarrow> bool" where
  "is_white_space c = (c \<in> set [CHR 0x09, CHR 0x0A, CHR 0x0B, CHR 0x0C, CHR 0x0D, CHR 0x20, CHR 0xA0])"

definition trim :: "string \<Rightarrow> string" where
  "trim s = rev (dropWhile is_white_space (rev (dropWhile is_white_space s)))"

text \<open>A number in a template literal: the decimal digits of an integer.\<close>

definition digit_char :: "nat \<Rightarrow> char" where
  "digit_char d = char_of (48 + d)"

function string_of_nat :: "nat \<Rightarrow> string" where
  "string_of_nat n = (if n < 10 then [digit_char n] else string_of_nat (n div 10) @ [digit_char (n mod 10)])"
  by pat_completeness auto
termination
  by (relation "measure id") auto

declare string_of_nat.simps [simp del]

definition string_of_int :: "int \<Rightarrow> string" where
  "string_of_int i = (if i < 0 then ''-'' @ string_of_nat (nat (- i)) else string_of_nat (nat i))"

definition fetchCart :: "env \<Rightarrow> uuid option \<Rightarrow> cart_page \<Rightarrow> database \<Rightarrow> cart_page" where
  "fetchCart e usr st db =
     (case usr of
        None \<Rightarrow> st
      | Some uid \<Rightarrow>
          (case request (net e 0) (select_cart usr uid) db of
             (_, Resolved (Data cart)) \<Rightarrow>
               (let st1 = st\<lparr>cartId := Some (cart_id cart)\<rparr>
                in case request (net e 1) (select_cart_lines usr (cart_id cart)) db of
                     (_, Resolved (Data rows)) \<Rightarrow> st1\<lparr>cartItems := rows\<rparr>
                   | _ \<Rightarrow> st1)
           | _ \<Rightarrow> st))"

definition updateQuantity :: "env \<Rightarrow> uuid option \<Rightarrow> uuid \<Rightarrow> int \<Rightarrow> database \<Rightarrow> database \<times> notice" where
  "updateQuantity e usr itemId newQuantity db =
     (if newQuantity < 1 then (db, no_notice)
      else case request (net e 0) (update_cart_item_quantity usr itemId newQuantity) db of
             (db', Resolved (Error err)) \<Rightarrow> (db', toast_error ''Gagal update jumlah'')
           | (db', _) \<Rightarrow> (db', no_notice))"

definition calculateTotal :: "cart_line list \<Rightarrow> amount" where
  "calculateTotal items =
     foldl (\<lambda>total item. total + cp_price (line_products item) * line_quantity item) 0 items"

definition order_item_of_line :: "uuid \<Rightarrow> cart_line \<Rightarrow> order_item_insert" where
  "order_item_of_line oid item =
     \<lparr>oins_order_id = oid, oins_product_id = cp_id (line_products item),
      oins_product_name = cp_name (line_products item),
      oins_product_price = cp_price (line_products item),
      oins_quantity = line_quantity item,
      oins_subtotal = cp_price (line_products item) * line_quantity item\<rparr>"

text \<open>
  The loop "Update product stock" from call number \<open>k\<close> on. The result of each update is
  awaited and not read: only a rejected promise leaves the loop.
\<close>

fun update_stock_loop ::
  "env \<Rightarrow> uuid option \<Rightarrow> nat \<Rightarrow> cart_line list \<Rightarrow> database \<Rightarrow> database \<times> thrown option" where
  "update_stock_loop e auth k [] db = (db, None)"
| "update_stock_loop e auth k (item # rest) db =
     (case request (net e k)
             (update_product_stock auth (db_now e k) (cp_id (line_products item))
                (cp_stock (line_products item) - line_quantity item)) db of
        (db', Throws) \<Rightarrow> (db', Some thrown_rejection)
      | (db', Resolved _) \<Rightarrow> update_stock_loop e auth (Suc k) rest db')"

text \<open>
  The requests of the \<^verbatim>\<open>try\<close> block, under the comments that head them in the source:
  "Create order" (call 0), "Create order items" (call 1), "Update product stock" (one call
  per cart line, from call 2 on) and "Clear cart" (the call after those).
\<close>

definition create_order ::
  "env \<Rightarrow> uuid \<Rightarrow> cart_line list \<Rightarrow> string \<Rightarrow> database \<Rightarrow> database \<times> order_row awaited" where
  "create_order e uid items addr db =
     (let orderNumber = ''WM'' @ string_of_nat (date_now e);
          totalAmount = calculateTotal items
      in request (net e 0)
           (insert_order (Some uid) (gen_random_uuid e 0 0) (db_now e 0)
              \<lparr>ins_user_id = uid, ins_order_number = orderNumber,
               ins_total_amount = totalAmount, ins_status = ''pending'',
               ins_payment_method = ''cash'', ins_shipping_address = addr\<rparr>) db)"

definition create_order_items ::
  "env \<Rightarrow> uuid \<Rightarrow> order_row \<Rightarrow> cart_line list \<Rightarrow> database \<Rightarrow> database \<times> unit awaited" where
  "create_order_items e uid ord items db =
     request (net e 1)
       (insert_order_items (Some uid) (gen_random_uuid e 1) (db_now e 1)
          (map (order_item_of_line (order_id ord)) items)) db"

definition clear_cart ::
  "env \<Rightarrow> uuid \<Rightarrow> uuid \<Rightarrow> cart_line list \<Rightarrow> database \<Rightarrow> database \<times> unit awaited" where
  "clear_cart e uid cid items db =
     request (net e (2 + length items)) (delete_cart_items (Some uid) cid) db"

text \<open>
  The body of the \<^verbatim>\<open>try\<close> block: the database it leaves and what was thrown, if anything.
  An error of the first two requests is thrown by the handler; the results of the later
  ones are not read.
\<close>

definition checkout_try ::
  "env \<Rightarrow> uuid \<Rightarrow> uuid \<Rightarrow> cart_line list \<Rightarrow> string \<Rightarrow> database \<Rightarrow> database \<times> thrown option" where
  "checkout_try e uid cid items addr db =
     (case create_order e uid items addr db of
        (db1, Throws) \<Rightarrow> (db1, Some thrown_rejection)
      | (db1, Resolved (Error orderError)) \<Rightarrow> (db1, Some (thrown_error orderError))
      | (db1, Resolved (Data ord)) \<Rightarrow>
          (case create_order_items e uid ord items db1 of
             (db2, Throws) \<Rightarrow> (db2, Some thrown_rejection)
           | (db2, Resolved (Error itemsError)) \<Rightarrow> (db2, Some (thrown_error itemsError))
           | (db2, Resolved (Data _)) \<Rightarrow>
               (case update_stock_loop e (Some uid) 2 items db2 of
                  (db3, Some x) \<Rightarrow> (db3, Some x)
                | (db3, None) \<Rightarrow>
                    (case clear_cart e uid cid items db3 of
                       (db4, Throws) \<Rightarrow> (db4, Some thrown_rejection)
                     | (db4, Resolved _) \<Rightarrow> (db4, None)))))"

definition handleCheckout :: "env \<Rightarrow> uuid option \<Rightarrow> cart_page \<Rightarrow> database \<Rightarrow> database \<times> notice" where
  "handleCheckout e usr st db =
     (case (usr, cartId st) of
        (Some uid, Some cid) \<Rightarrow>
          if cid = [] \<or> cartItems st = [] then (db, no_notice)
          else if trim (shippingAddress st) = [] then (db, toast_error ''Silakan isi alamat pengiriman'')
          else (case checkout_try e uid cid (cartItems st) (shippingAddress st) db of
                  (db', None) \<Rightarrow> (db', toast_success ''Pesanan berhasil dibuat!'')
                | (db', Some x) \<Rightarrow> (db', toast_caught x))
      | _ \<Rightarrow> (db, no_notice))"

section \<open>The catalogue (\<^verbatim>\<open>src/pages/Index.tsx\<close>)\<close>

text \<open>
  \<^verbatim>\<open>name ILIKE pattern\<close>. In a LIKE pattern \<^verbatim>\<open>%\<close> stands for any sequence of characters,
  \<^verbatim>\<open>_\<close> for any one character and a backslash takes the character after it literally;
  ILIKE compares in lower case. A pattern that ends in a lone backslash is an error in
  PostgreSQL; \<^verbatim>\<open>fetchProducts\<close> builds none, its patterns end in \<^verbatim>\<open>%\<close>.
  The query interface reads \<^verbatim>\<open>*\<close> in the pattern of a \<^verbatim>\<open>like\<close> or \<^verbatim>\<open>ilike\<close> filter as \<^verbatim>\<open>%\<close>.
\<close>

fun like_match :: "string \<Rightarrow> string \<Rightarrow> bool" where
  "like_match [] t = (t = [])"
| "like_match (p # ps) t =
     (if p = CHR ''%'' then
        like_match ps t \<or> (case t of [] \<Rightarrow> False | c # t' \<Rightarrow> like_match (p # ps) t')
      else if p = CHR 0x5C then
        (case ps of
           [] \<Rightarrow> False
         | q # qs \<Rightarrow> (case t of [] \<Rightarrow> False | c # t' \<Rightarrow> c = q \<and> like_match qs t'))
      else
        (case t of [] \<Rightarrow> False | c # t' \<Rightarrow> (p = CHR ''_'' \<or> p = c) \<and> like_match ps t'))"

definition pg_lower :: "char \<Rightarrow> char" where
  "pg_lower c = (if CHR ''A'' \<le> c \<and> c \<le> CHR ''Z'' then char_of (of_char c + (32::nat)) else c)"

definition ilike :: "string \<Rightarrow> string \<Rightarrow> bool" where
  "ilike txt pat = like_match (map pg_lower pat) (map pg_lower txt)"

definition star_to_percent :: "string \<Rightarrow> string" where
  "star_to_percent pat = map (\<lambda>c. if c = CHR ''*'' then CHR ''%'' else c) pat"

text \<open>
  \<^verbatim>\<open>ORDER BY is_popular DESC, name ASC\<close>: descending puts NULL first, then true, then false;
  names are compared character by character (the collation of the database is not part
  of the repository).
\<close>

definition popular_rank :: "bool option \<Rightarrow> nat" where
  "popular_rank b = (case b of None \<Rightarrow> 0 | Some True \<Rightarrow> 1 | Some False \<Rightarrow> 2)"

definition catalog_key :: "product_row \<Rightarrow> nat \<times> string" where
  "catalog_key p = (popular_rank (product_is_popular p), product_name p)"

text \<open>The query that \<^verbatim>\<open>fetchProducts\<close> builds; the embedded category name is left out.\<close>

definition select_catalog ::
  "string option \<Rightarrow> string \<Rightarrow> database \<Rightarrow> pg_error + database \<times> product_row list" where
  "select_catalog selectedCategory searchQuery db =
     (let q0 = filter (\<lambda>p. product_stock p > 0) (products db);
          q1 = (case selectedCategory of
                  None \<Rightarrow> q0
                | Some c \<Rightarrow> if c = [] then q0 else filter (\<lambda>p. product_category_id p = Some c) q0);
          q2 = (if searchQuery = [] then q1
                else filter (\<lambda>p. ilike (product_name p)
                                    (star_to_percent (''%'' @ searchQuery @ ''%''))) q1)
      in Inr (db, sort_key catalog_key q2))"

record index_page =
  page_products :: "product_row list"
  searchQuery :: string
  selectedCategory :: "string option"

definition fetchProducts :: "env \<Rightarrow> index_page \<Rightarrow> database \<Rightarrow> database \<times> index_page \<times> notice" where
  "fetchProducts e st db =
     (case request (net e 0) (select_catalog (selectedCategory st) (searchQuery st)) db of
        (db', Resolved (Data rows)) \<Rightarrow> (db', st\<lparr>page_products := rows\<rparr>, no_notice)
      | (db', Resolved (Error err)) \<Rightarrow> (db', st, toast_error ''Gagal memuat produk'')
      | (db', Throws) \<Rightarrow> (db', st, no_notice))"

text \<open>What the claim of the specification asks of a name: it contains the text, case ignored.\<close>

definition contains_ci :: "string \<Rightarrow> string \<Rightarrow> bool" where
  "contains_ci name q = sublist (map pg_lower q) (map pg_lower name)"

section \<open>The product page (\<^verbatim>\<open>src/pages/ProductDetail.tsx\<close>)\<close>

text \<open>
  "Get or create cart", from call number 0: the database, the number of the next call and
  the cart, or what was thrown. \<^verbatim>\<open>data\<close> is null when \<^verbatim>\<open>.single()\<close> resolves with an error.
\<close>

definition get_or_create_cart ::
  "env \<Rightarrow> uuid \<Rightarrow> database \<Rightarrow> database \<times> nat \<times> (thrown + cart_row)" where
  "get_or_create_cart e uid db =
     (case request (net e 0) (select_cart (Some uid) uid) db of
        (db0, Throws) \<Rightarrow> (db0, 1, Inl thrown_rejection)
      | (db0, Resolved (Data cart)) \<Rightarrow> (db0, 1, Inr cart)
      | (db0, Resolved (Error err)) \<Rightarrow>
          (case request (net e 1) (insert_cart (Some uid) (gen_random_uuid e 1 0) (db_now e 1) uid) db0 of
             (db1, Throws) \<Rightarrow> (db1, 2, Inl thrown_rejection)
           | (db1, Resolved (Error cartError)) \<Rightarrow> (db1, 2, Inl (thrown_error cartError))
           | (db1, Resolved (Data newCart)) \<Rightarrow> (db1, 2, Inr newCart)))"

text \<open>"Check if product already in cart" and the update or insert that follows, from call \<open>k\<close>.\<close>

definition put_in_cart ::
  "env \<Rightarrow> uuid \<Rightarrow> nat \<Rightarrow> cart_row \<Rightarrow> product_row \<Rightarrow> int \<Rightarrow> database \<Rightarrow> database \<times> thrown option" where
  "put_in_cart e uid k cart product quantity db =
     (case request (net e k) (select_cart_item (Some uid) (cart_id cart) (product_id product)) db of
        (db1, Throws) \<Rightarrow> (db1, Some thrown_rejection)
      | (db1, Resolved (Data existingItem)) \<Rightarrow>
          (case request (net e (Suc k))
                  (update_cart_item_quantity (Some uid) (ci_id existingItem)
                     (ci_quantity existingItem + quantity)) db1 of
             (db2, Throws) \<Rightarrow> (db2, Some thrown_rejection)
           | (db2, Resolved (Error err)) \<Rightarrow> (db2, Some (thrown_error err))
           | (db2, Resolved (Data _)) \<Rightarrow> (db2, None))
      | (db1, Resolved (Error _)) \<Rightarrow>
          (case request (net e (Suc k))
                  (insert_cart_item (Some uid) (gen_random_uuid e (Suc k) 0) (db_now e (Suc k))
                     (cart_id cart) (product_id product) quantity) db1 of
             (db2, Throws) \<Rightarrow> (db2, Some thrown_rejection)
           | (db2, Resolved (Error err)) \<Rightarrow> (db2, Some (thrown_error err))
           | (db2, Resolved (Data _)) \<Rightarrow> (db2, None)))"

text \<open>\<open>product\<close> and \<open>quantity\<close> are the state of the component.\<close>

definition addToCart ::
  "env \<Rightarrow> uuid option \<Rightarrow> product_row option \<Rightarrow> int \<Rightarrow> database \<Rightarrow> database \<times> notice" where
  "addToCart e usr product quantity db =
     (case usr of
        None \<Rightarrow> (db, toast_error ''Silakan login terlebih dahulu'')
      | Some uid \<Rightarrow>
          (case product of
             None \<Rightarrow> (db, no_notice)
           | Some item \<Rightarrow>
               (case get_or_create_cart e uid db of
                  (db1, k, Inl x) \<Rightarrow> (db1, toast_caught x)
                | (db1, k, Inr cart) \<Rightarrow>
                    (case put_in_cart e uid k cart item quantity db1 of
                       (db2, Some x) \<Rightarrow> (db2, toast_caught x)
                     | (db2, None) \<Rightarrow> (db2, toast_success ''Produk ditambahkan ke keranjang'')))))"

section \<open>The admin console (\<^verbatim>\<open>src/pages/Admin.tsx\<close>)\<close>

definition updateOrderStatus ::
  "env \<Rightarrow> uuid option \<Rightarrow> uuid \<Rightarrow> string \<Rightarrow> database \<Rightarrow> database \<times> notice" where
  "updateOrderStatus e usr orderId status db =
     (case request (net e 0) (update_order_status usr (db_now e 0) orderId status) db of
        (db', Resolved (Error err)) \<Rightarrow> (db', toast_error ''Gagal update status'')
      | (db', Resolved (Data _)) \<Rightarrow> (db', toast_success ''Status berhasil diupdate'')
      | (db', Throws) \<Rightarrow> (db', no_notice))"

text \<open>The values of the status selector.\<close>

definition order_statuses :: "string list" where
  "order_statuses = [''pending'', ''paid'', ''processing'', ''shipped'', ''completed'', ''cancelled'']"

section \<open>The order history (\<^verbatim>\<open>src/pages/Orders.tsx\<close>)\<close>

text \<open>The interface \<^verbatim>\<open>Order\<close>: an order as \<^verbatim>\<open>fetchOrders\<close> left it in the state of the page.\<close>

record order_item_view =
  view_product_name :: string
  view_product_price :: amount
  view_quantity :: int
  view_subtotal :: amount

record order_view =
  view_id :: uuid
  view_order_number :: string
  view_total_amount :: amount
  view_status :: string
  view_shipping_address :: string
  view_created_at :: string
  view_order_items :: "order_item_view list"

text \<open>
  What the platform supplies to the invoice. Two functions of its \<^verbatim>\<open>Intl\<close> library:
  \<^verbatim>\<open>new Intl.NumberFormat("id-ID", {currency: "IDR", ...}).format\<close> and
  \<^verbatim>\<open>new Date(s).toLocaleDateString("id-ID")\<close>. And the text that a template literal makes
  of a member of \<^verbatim>\<open>Object.prototype\<close>, given the member's name: a function's source text, or
  "[object Object]" for \<^verbatim>\<open>__proto__\<close>.
\<close>

record intl =
  format_idr :: "amount \<Rightarrow> string"
  locale_date :: "string \<Rightarrow> string"
  inherited_text :: "string \<Rightarrow> string"

text \<open>
  \<^verbatim>\<open>statusMap\<close> is an object literal, so \<^verbatim>\<open>statusMap[status]\<close> finds, besides its six own
  keys, the members that every object inherits from \<^verbatim>\<open>Object.prototype\<close>.
\<close>

definition object_prototype_members :: "string list" where
  "object_prototype_members =
     [''constructor'', ''hasOwnProperty'', ''isPrototypeOf'', ''propertyIsEnumerable'',
      ''toLocaleString'', ''toString'', ''valueOf'', ''__proto__'', ''__defineGetter__'',
      ''__defineSetter__'', ''__lookupGetter__'', ''__lookupSetter__'']"

text \<open>
  \<^verbatim>\<open>statusMap[status] || status\<close>, as the template literal of the invoice prints it: the
  text of an own key, what the platform prints for an inherited member (a truthy function
  or object), and otherwise the status itself.
\<close>

definition getStatusText :: "intl \<Rightarrow> string \<Rightarrow> string" where
  "getStatusText I status =
     (case map_of [(''pending'', ''Menunggu Pembayaran''), (''paid'', ''Dibayar''),
                   (''processing'', ''Diproses''), (''shipped'', ''Dikirim''),
                   (''completed'', ''Selesai''), (''cancelled'', ''Dibatalkan'')] status of
        Some t \<Rightarrow> t
      | None \<Rightarrow> if status \<in> set object_prototype_members then inherited_text I status
                else status)"

definition nl :: string where
  "nl = [CHR 0x0A]"

definition invoice_item :: "intl \<Rightarrow> nat \<Rightarrow> order_item_view \<Rightarrow> string" where
  "invoice_item I index item =
     nl @ string_of_nat (index + 1) @ ''. '' @ view_product_name item @ nl
     @ ''   '' @ string_of_int (view_quantity item) @ '' x '' @ format_idr I (view_product_price item)
     @ '' = '' @ format_idr I (view_subtotal item) @ nl"

definition invoiceContent :: "intl \<Rightarrow> order_view \<Rightarrow> string" where
  "invoiceContent I ord =
     trim (nl
       @ ''================================='' @ nl
       @ ''      WARUNG MADURA'' @ nl
       @ ''   Apotek Online Terpercaya'' @ nl
       @ ''================================='' @ nl
       @ ''Invoice: '' @ view_order_number ord @ nl
       @ ''Tanggal: '' @ locale_date I (view_created_at ord) @ nl
       @ ''---------------------------------'' @ nl
       @ nl
       @ ''ITEM PESANAN:'' @ nl
       @ concat (map (\<lambda>(index, item). invoice_item I index item) (enumerate 0 (view_order_items ord))) @ nl
       @ nl
       @ ''---------------------------------'' @ nl
       @ ''TOTAL: '' @ format_idr I (view_total_amount ord) @ nl
       @ ''---------------------------------'' @ nl
       @ nl
       @ ''Alamat Pengiriman:'' @ nl
       @ view_shipping_address ord @ nl
       @ nl
       @ ''Status: '' @ getStatusText I (view_status ord) @ nl
       @ nl
       @ ''Terima kasih telah berbelanja'' @ nl
       @ ''di Warung Madura!'' @ nl
       @ ''================================='' @ nl
       @ ''    '')"

text \<open>
  \<^verbatim>\<open>downloadInvoice\<close> hands the browser a text file to save. The world it runs in is the
  database and the files the browser has saved, as pairs of a name and a content.
\<close>

record world =
  backend :: database
  downloads :: "(string \<times> string) list"

definition downloadInvoice :: "intl \<Rightarrow> order_view \<Rightarrow> world \<Rightarrow> world" where
  "downloadInvoice I ord w =
     w\<lparr>downloads := downloads w
          @ [(''Invoice-'' @ view_order_number ord @ ''.txt'', invoiceContent I ord)]\<rparr>"

text \<open>A search text in which no character is special to the filter.\<close>

definition plain_text :: "string \<Rightarrow> bool" where
  "plain_text q =
     (\<forall>c \<in> set q. c \<noteq> CHR ''%'' \<and> c \<noteq> CHR ''_'' \<and> c \<noteq> CHR 0x5C \<and> c \<noteq> CHR ''*'')"

section \<open>Constraints of the schema\<close>

text \<open>
  The keys that the database enforces on the tables the handlers write:
  the primary keys, \<^verbatim>\<open>UNIQUE(user_id)\<close> on carts, \<^verbatim>\<open>UNIQUE(cart_id, product_id)\<close> on
  cart_items and \<^verbatim>\<open>UNIQUE\<close> on \<^verbatim>\<open>orders.order_number\<close>.
\<close>

definition cart_product_unique :: "database \<Rightarrow> bool" where
  "cart_product_unique db = distinct (map (\<lambda>i. (ci_cart_id i, ci_product_id i)) (cart_items db))"

definition keys_hold :: "database \<Rightarrow> bool" where
  "keys_hold db =
     (distinct (map product_id (products db)) \<and> distinct (map cart_id (carts db))
      \<and> distinct (map cart_user_id (carts db)) \<and> distinct (map ci_id (cart_items db))
      \<and> cart_product_unique db
      \<and> distinct (map order_id (orders db)) \<and> distinct (map order_number (orders db))
      \<and> distinct (map oi_id (order_items db)))"

text \<open>The foreign keys of cart_items: every item names a cart and a product that exist.\<close>

definition cart_items_refer :: "database \<Rightarrow> bool" where
  "cart_items_refer db =
     (\<forall>i \<in> set (cart_items db). ci_cart_id i \<in> set (map cart_id (carts db))
                                   \<and> ci_product_id i \<in> set (map product_id (products db)))"

section \<open>A shop to run the handlers in\<close>

text \<open>
  Two products of the migration's sample data, a customer and an administrator, each with
  a cart. The customer's cart is the scenario of the specification: two boxes of
  Paracetamol at 8000 (800000 hundredths), to be sent to Jl. Merdeka 1.
\<close>

definition paracetamol :: product_row where
  "paracetamol =
     \<lparr>product_id = ''p1'', product_name = ''Paracetamol 500mg'', product_slug = ''paracetamol-500mg'',
      product_description = Some ''Obat penurun panas dan pereda nyeri'', product_price = 800000,
      product_stock = 120, product_category_id = Some ''c5'', product_image_url = None,
      product_dosage = Some ''3-4x sehari 1 tablet'', product_is_popular = Some False,
      product_created_at = Some 1000, product_updated_at = Some 1000\<rparr>"

definition tolak_angin :: product_row where
  "tolak_angin =
     \<lparr>product_id = ''p2'', product_name = ''Tolak Angin'', product_slug = ''tolak-angin'',
      product_description = Some ''Obat herbal masuk angin'', product_price = 500000,
      product_stock = 200, product_category_id = Some ''c4'', product_image_url = None,
      product_dosage = Some ''Diminum saat masuk angin'', product_is_popular = Some True,
      product_created_at = Some 1000, product_updated_at = Some 1000\<rparr>"

definition shop :: database where
  "shop =
     \<lparr>user_roles =
        [\<lparr>ur_id = ''r1'', ur_user_id = ''customer'', ur_role = role_user, ur_created_at = Some 1000\<rparr>,
         \<lparr>ur_id = ''r2'', ur_user_id = ''manager'', ur_role = role_user, ur_created_at = Some 1000\<rparr>,
         \<lparr>ur_id = ''r3'', ur_user_id = ''manager'', ur_role = role_admin, ur_created_at = Some 1000\<rparr>],
      products = [paracetamol, tolak_angin],
      carts =
        [\<lparr>cart_id = ''cart1'', cart_user_id = ''customer'', cart_created_at = Some 2000,
          cart_updated_at = Some 2000\<rparr>,
         \<lparr>cart_id = ''cart2'', cart_user_id = ''manager'', cart_created_at = Some 2000,
          cart_updated_at = Some 2000\<rparr>],
      cart_items =
        [\<lparr>ci_id = ''i1'', ci_cart_id = ''cart1'', ci_product_id = ''p1'', ci_quantity = 2,
          ci_created_at = Some 3000\<rparr>,
         \<lparr>ci_id = ''i2'', ci_cart_id = ''cart2'', ci_product_id = ''p1'', ci_quantity = 2,
          ci_created_at = Some 3000\<rparr>,
         \<lparr>ci_id = ''i3'', ci_cart_id = ''cart2'', ci_product_id = ''p2'', ci_quantity = 1,
          ci_created_at = Some 3000\<rparr>],
      orders = [],
      order_items = []\<rparr>"

text \<open>A run in which every request is delivered, and one that rejects its k-th call.\<close>

definition calm :: env where
  "calm = \<lparr>net = (\<lambda>k. Delivered), date_now = 1762000000000, db_now = (\<lambda>k. 5000 + k),
           gen_random_uuid = (\<lambda>k i. ''n'' @ string_of_nat k @ ''.'' @ string_of_nat i)\<rparr>"

definition rejecting :: "nat \<Rightarrow> env" where
  "rejecting k = calm\<lparr>net := (\<lambda>j. if j = k then Rejected else Delivered)\<rparr>"

definition dropping :: "nat \<Rightarrow> env" where
  "dropping k = calm\<lparr>net := (\<lambda>j. if j = k then Dropped else Delivered)\<rparr>"

text \<open>The cart page of each of the two, as \<^verbatim>\<open>fetchCart\<close> loads it, with the address typed in.\<close>

definition blank_page :: cart_page where
  "blank_page = \<lparr>cartItems = [], cartId = None, shippingAddress = ''Jl. Merdeka 1''\<rparr>"

definition customer_page :: cart_page where
  "customer_page = fetchCart calm (Some ''customer'') blank_page shop"

definition manager_page :: cart_page where
  "manager_page = fetchCart calm (Some ''manager'') blank_page shop"

text \<open>
  The shop with a second line in the customer's cart, three sachets of Tolak Angin, and the
  cart page that \<^verbatim>\<open>fetchCart\<close> loads for the customer there.
\<close>

definition shop_two_lines :: database where
  "shop_two_lines =
     shop\<lparr>cart_items := cart_items shop @
       [\<lparr>ci_id = ''i4'', ci_cart_id = ''cart1'', ci_product_id = ''p2'', ci_quantity = 3,
         ci_created_at = Some 3500\<rparr>]\<rparr>"

definition customer_two_lines_page :: cart_page where
  "customer_two_lines_page = fetchCart calm (Some ''customer'') blank_page shop_two_lines"

text \<open>
  What a checkout at \<^verbatim>\<open>Date.now() = 1762000000000\<close> stores for the customer and for the
  administrator when its first two requests are delivered.
\<close>

definition customer_order :: order_row where
  "customer_order =
     \<lparr>order_id = ''n0.0'', order_user_id = ''customer'', order_number = ''WM1762000000000'',
      order_total_amount = 1600000, order_status = ''pending'', order_payment_method = Some ''cash'',
      order_shipping_address = ''Jl. Merdeka 1'', order_created_at = Some 5000,
      order_updated_at = Some 5000\<rparr>"

definition customer_order_rows :: "order_item_row list" where
  "customer_order_rows =
     [\<lparr>oi_id = ''n1.0'', oi_order_id = ''n0.0'', oi_product_id = Some ''p1'',
       oi_product_name = ''Paracetamol 500mg'', oi_product_price = 800000,
       oi_quantity = 2, oi_subtotal = 1600000, oi_created_at = Some 5001\<rparr>]"

definition manager_order :: order_row where
  "manager_order =
     \<lparr>order_id = ''n0.0'', order_user_id = ''manager'', order_number = ''WM1762000000000'',
      order_total_amount = 2100000, order_status = ''pending'', order_payment_method = Some ''cash'',
      order_shipping_address = ''Jl. Merdeka 1'', order_created_at = Some 5000,
      order_updated_at = Some 5000\<rparr>"

definition manager_order_rows :: "order_item_row list" where
  "manager_order_rows =
     [\<lparr>oi_id = ''n1.0'', oi_order_id = ''n0.0'', oi_product_id = Some ''p1'',
       oi_product_name = ''Paracetamol 500mg'', oi_product_price = 800000,
       oi_quantity = 2, oi_subtotal = 1600000, oi_created_at = Some 5001\<rparr>,
      \<lparr>oi_id = ''n1.1'', oi_order_id = ''n0.0'', oi_product_id = Some ''p2'',
       oi_product_name = ''Tolak Angin'', oi_product_price = 500000,
       oi_quantity = 1, oi_subtotal = 500000, oi_created_at = Some 5001\<rparr>]"

definition ordered :: database where
  "ordered = shop\<lparr>orders := [manager_order]\<rparr>"

definition itemised :: database where
  "itemised = ordered\<lparr>order_items := manager_order_rows\<rparr>"

text \<open>The shop after the customer's order was placed at time 4000, and a later moment.\<close>

definition placed_order :: order_row where
  "placed_order =
     \<lparr>order_id = ''o1'', order_user_id = ''customer'', order_number = ''WM1761000000000'',
      order_total_amount = 1600000, order_status = ''pending'', order_payment_method = Some ''cash'',
      order_shipping_address = ''Jl. Merdeka 1'', order_created_at = Some 4000,
      order_updated_at = Some 4000\<rparr>"

definition shop_sold :: database where
  "shop_sold = shop\<lparr>orders := [placed_order]\<rparr>"

text \<open>
  The customer's order as the order history holds it, a stand-in for what the platform
  supplies (whole rupiah after "Rp", the date as it is stored, a native function's text),
  and a browser that has saved no file.
\<close>

definition customer_view :: order_view where
  "customer_view =
     \<lparr>view_id = ''n0.0'', view_order_number = ''WM1762000000000'', view_total_amount = 1600000,
      view_status = ''pending'', view_shipping_address = ''Jl. Merdeka 1'',
      view_created_at = ''2025-11-06'',
      view_order_items =
        [\<lparr>view_product_name = ''Paracetamol 500mg'', view_product_price = 800000,
          view_quantity = 2, view_subtotal = 1600000\<rparr>]\<rparr>"

definition plain_intl :: intl where
  "plain_intl =
     \<lparr>format_idr = (\<lambda>a. ''Rp '' @ string_of_int (a div 100)), locale_date = (\<lambda>s. s),
      inherited_text = (\<lambda>name. if name = ''__proto__'' then ''[object Object]''
                               else if name = ''constructor'' then ''function Object() { [native code] }''
                               else ''function '' @ name @ ''() { [native code] }'')\<rparr>"

text \<open>The invoice of that order, as the file holds it.\<close>

definition customer_invoice :: string where
  "customer_invoice =
     ''=================================\<newline>      WARUNG MADURA\<newline>   Apotek Online Terpercaya\<newline>=================================\<newline>Invoice: WM1762000000000\<newline>Tanggal: 2025-11-06\<newline>---------------------------------\<newline>\<newline>ITEM PESANAN:\<newline>\<newline>1. Paracetamol 500mg\<newline>   2 x Rp 8000 = Rp 16000\<newline>\<newline>\<newline>---------------------------------\<newline>TOTAL: Rp 16000\<newline>---------------------------------\<newline>\<newline>Alamat Pengiriman:\<newline>Jl. Merdeka 1\<newline>\<newline>Status: Menunggu Pembayaran\<newline>\<newline>Terima kasih telah berbelanja\<newline>di Warung Madura!\<newline>=================================''"

definition fresh_browser :: world where
  "fresh_browser = \<lparr>backend = shop, downloads = []\<rparr>"

section \<open>Requests and what they leave behind\<close>


lemma request_Throws: "request t stmt db = (db', Throws) \<Longrightarrow> db' = db \<and> t = Rejected"
  by (auto simp: request_def split: transport.splits sum.splits)

lemma request_Error: "request t stmt db = (db', Resolved (Error err)) \<Longrightarrow> db' = db"
  by (auto simp: request_def split: transport.splits sum.splits)

lemma request_Data:
  "request t stmt db = (db', Resolved (Data x)) \<Longrightarrow> t = Delivered \<and> stmt db = Inr (db', x)"
  by (auto simp: request_def split: transport.splits sum.splits)

lemma request_Rejected [simp]: "request Rejected stmt db = (db, Throws)"
  by (simp add: request_def)

lemma request_Dropped [simp]: "request Dropped stmt db = (db, Resolved (Error network_error))"
  by (simp add: request_def)

lemma request_Delivered:
  "request Delivered stmt db =
     (case stmt db of Inl err \<Rightarrow> (db, Resolved (Error err)) | Inr (db', x) \<Rightarrow> (db', Resolved (Data x)))"
  by (simp add: request_def)

lemma insert_order_Inr:
  "insert_order auth new_id now v db = Inr (db', ord) \<Longrightarrow>
     db' = db\<lparr>orders := orders db @ [ord]\<rparr>
     \<and> ord = \<lparr>order_id = new_id, order_user_id = ins_user_id v,
                 order_number = ins_order_number v, order_total_amount = ins_total_amount v,
                 order_status = ins_status v, order_payment_method = Some (ins_payment_method v),
                 order_shipping_address = ins_shipping_address v,
                 order_created_at = Some now, order_updated_at = Some now\<rparr>"
  by (auto simp: insert_order_def Let_def split: if_splits)

lemma create_order_Data:
  "create_order e uid items addr db = (db1, Resolved (Data ord)) \<Longrightarrow>
     db1 = db\<lparr>orders := orders db @ [ord]\<rparr>
     \<and> ord = \<lparr>order_id = gen_random_uuid e 0 0, order_user_id = uid,
              order_number = ''WM'' @ string_of_nat (date_now e),
              order_total_amount = calculateTotal items,
              order_status = ''pending'', order_payment_method = Some ''cash'',
              order_shipping_address = addr,
              order_created_at = Some (db_now e 0), order_updated_at = Some (db_now e 0)\<rparr>"
  unfolding create_order_def Let_def
  by (drule request_Data) (auto dest!: insert_order_Inr)

lemma create_order_other:
  "create_order e uid items addr db = (db1, r) \<Longrightarrow> \<forall>ord. r \<noteq> Resolved (Data ord) \<Longrightarrow> db1 = db"
  unfolding create_order_def Let_def
  by (cases r; cases "net e 0") (auto simp: request_def split: sum.splits response.splits)

lemma create_order_items_Data:
  "create_order_items e uid ord items db = (db', Resolved (Data u)) \<Longrightarrow>
     db' = db\<lparr>order_items := order_items db
              @ map (\<lambda>(k, v). order_item_of_insert (gen_random_uuid e 1 k) (db_now e 1) v)
                  (enumerate 0 (map (order_item_of_line (order_id ord)) items))\<rparr>"
  unfolding create_order_items_def
  by (drule request_Data) (auto simp: insert_order_items_def Let_def split: if_splits)

lemma create_order_items_other:
  "create_order_items e uid ord items db = (db', r) \<Longrightarrow> \<forall>u. r \<noteq> Resolved (Data u) \<Longrightarrow> db' = db"
  unfolding create_order_items_def
  by (cases r; cases "net e 1") (auto simp: request_def split: sum.splits response.splits)

lemma update_product_stock_frame:
  "update_product_stock auth now pid n db = Inr (db', u) \<Longrightarrow>
     db' = db\<lparr>products := products db'\<rparr> \<and> length (products db') = length (products db)"
  by (auto simp: update_product_stock_def split: if_splits)

lemma stock_request_frame:
  "request t (update_product_stock auth now pid n) db = (db', r) \<Longrightarrow> db' = db\<lparr>products := products db'\<rparr>"
  by (cases t) (auto simp: request_def update_product_stock_def split: sum.splits if_splits)

lemma update_stock_loop_frame:
  "update_stock_loop e auth k items db = (db', r) \<Longrightarrow> db' = db\<lparr>products := products db'\<rparr>"
proof (induction items arbitrary: k db)
  case Nil
  then show ?case by simp
next
  case (Cons item rest)
  obtain db1 r1 where step:
    "request (net e k) (update_product_stock auth (db_now e k) (cp_id (line_products item))
        (cp_stock (line_products item) - line_quantity item)) db = (db1, r1)"
    by (cases "request (net e k) (update_product_stock auth (db_now e k) (cp_id (line_products item))
        (cp_stock (line_products item) - line_quantity item)) db") 
  have f1: "db1 = db\<lparr>products := products db1\<rparr>"
    using stock_request_frame [OF step] .
  show ?case
  proof (cases r1)
    case Throws
    with Cons.prems step have "db' = db1" by simp
    with f1 show ?thesis by simp
  next
    case (Resolved x)
    with Cons.prems step have "update_stock_loop e auth (Suc k) rest db1 = (db', r)" by simp
    from Cons.IH [OF this] have "db' = db1\<lparr>products := products db'\<rparr>" .
    with f1 show ?thesis by (metis database.surjective database.update_convs(2))
  qed
qed

lemma clear_cart_frame:
  "clear_cart e uid cid items db = (db', r) \<Longrightarrow> db' = db\<lparr>cart_items := cart_items db'\<rparr>"
  unfolding clear_cart_def
  by (cases "net e (2 + length items)") (auto simp: request_def delete_cart_items_def)


lemma update_stock_loop_fields:
  assumes "update_stock_loop e auth k items db = (db', r)"
  shows "orders db' = orders db" and "order_items db' = order_items db"
    and "cart_items db' = cart_items db" and "carts db' = carts db"
    and "user_roles db' = user_roles db"
proof -
  have "db' = db\<lparr>products := products db'\<rparr>"
    using update_stock_loop_frame [OF assms] .
  then have eq: "db\<lparr>products := products db'\<rparr> = db'" by simp
  show "orders db' = orders db" by (subst eq [symmetric]) simp
  show "order_items db' = order_items db" by (subst eq [symmetric]) simp
  show "cart_items db' = cart_items db" by (subst eq [symmetric]) simp
  show "carts db' = carts db" by (subst eq [symmetric]) simp
  show "user_roles db' = user_roles db" by (subst eq [symmetric]) simp
qed

lemma clear_cart_fields:
  assumes "clear_cart e uid cid items db = (db', r)"
  shows "orders db' = orders db" and "order_items db' = order_items db"
    and "products db' = products db" and "carts db' = carts db"
    and "user_roles db' = user_roles db"
proof -
  have "db' = db\<lparr>cart_items := cart_items db'\<rparr>"
    using clear_cart_frame [OF assms] .
  then have eq: "db\<lparr>cart_items := cart_items db'\<rparr> = db'" by simp
  show "orders db' = orders db" by (subst eq [symmetric]) simp
  show "order_items db' = order_items db" by (subst eq [symmetric]) simp
  show "products db' = products db" by (subst eq [symmetric]) simp
  show "carts db' = carts db" by (subst eq [symmetric]) simp
  show "user_roles db' = user_roles db" by (subst eq [symmetric]) simp
qed

lemma create_order_items_orders:
  assumes "create_order_items e uid ord items db = (db', r)"
  shows "orders db' = orders db" and "products db' = products db"
    and "cart_items db' = cart_items db"
proof -
  have "db' = db \<or> (\<exists>rows. db' = db\<lparr>order_items := rows\<rparr>)"
  proof (cases "\<exists>u. r = Resolved (Data u)")
    case True
    then show ?thesis using create_order_items_Data assms by blast
  next
    case False
    then show ?thesis using create_order_items_other [OF assms] by blast
  qed
  then show "orders db' = orders db" and "products db' = products db"
    and "cart_items db' = cart_items db" by auto
qed

text \<open>The orders table after the try block is the one the first request left.\<close>

lemma checkout_try_orders:
  assumes "create_order e uid items addr db = (db1, r1)"
  shows "orders (fst (checkout_try e uid cid items addr db)) = orders db1"
proof (cases "\<exists>ord. r1 = Resolved (Data ord)")
  case False
  then have "fst (checkout_try e uid cid items addr db) = db1"
    using assms by (cases r1) (auto simp: checkout_try_def split: response.splits)
  then show ?thesis by simp
next
  case True
  then obtain ord where r1: "r1 = Resolved (Data ord)" by blast
  obtain db2 r2 where c2: "create_order_items e uid ord items db1 = (db2, r2)"
    by (cases "create_order_items e uid ord items db1")
  have o2: "orders db2 = orders db1" using create_order_items_orders(1) [OF c2] .
  show ?thesis
  proof (cases "\<exists>u. r2 = Resolved (Data u)")
    case False
    then have "fst (checkout_try e uid cid items addr db) = db2"
      using assms r1 c2 by (cases r2) (auto simp: checkout_try_def split: response.splits)
    with o2 show ?thesis by simp
  next
    case True
    then have r2: "r2 = Resolved (Data ())" by auto
    obtain db3 r3 where c3: "update_stock_loop e (Some uid) 2 items db2 = (db3, r3)"
      by (cases "update_stock_loop e (Some uid) 2 items db2")
    have o3: "orders db3 = orders db2" using update_stock_loop_fields(1) [OF c3] .
    show ?thesis
    proof (cases r3)
      case (Some x)
      then have "fst (checkout_try e uid cid items addr db) = db3"
        using assms r1 c2 r2 c3 by (simp add: checkout_try_def)
      with o2 o3 show ?thesis by simp
    next
      case None
      obtain db4 r4 where c4: "clear_cart e uid cid items db3 = (db4, r4)"
        by (cases "clear_cart e uid cid items db3")
      have o4: "orders db4 = orders db3" using clear_cart_fields(1) [OF c4] .
      have "fst (checkout_try e uid cid items addr db) = db4"
        using assms r1 c2 r2 c3 None c4 by (cases r4) (simp_all add: checkout_try_def)
      with o2 o3 o4 show ?thesis by simp
    qed
  qed
qed

lemma handleCheckout_orders:
  "orders (fst (handleCheckout e usr st db)) = orders db
   \<or> (\<exists>uid. orders (fst (handleCheckout e usr st db)) =
         orders db @ [\<lparr>order_id = gen_random_uuid e 0 0, order_user_id = uid,
              order_number = ''WM'' @ string_of_nat (date_now e),
              order_total_amount = calculateTotal (cartItems st),
              order_status = ''pending'', order_payment_method = Some ''cash'',
              order_shipping_address = shippingAddress st,
              order_created_at = Some (db_now e 0), order_updated_at = Some (db_now e 0)\<rparr>])"
proof (cases "\<exists>uid cid. usr = Some uid \<and> cartId st = Some cid \<and> cid \<noteq> [] \<and> cartItems st \<noteq> []
                \<and> trim (shippingAddress st) \<noteq> []")
  case False
  then have "fst (handleCheckout e usr st db) = db"
    by (auto simp: handleCheckout_def split: option.splits)
  then show ?thesis by simp
next
  case True
  then obtain uid cid where g: "usr = Some uid" "cartId st = Some cid" "cid \<noteq> []"
    "cartItems st \<noteq> []" "trim (shippingAddress st) \<noteq> []" by blast
  have h: "fst (handleCheckout e usr st db) = fst (checkout_try e uid cid (cartItems st) (shippingAddress st) db)"
    using g by (simp add: handleCheckout_def split: prod.splits option.splits)
  obtain db1 r1 where c1: "create_order e uid (cartItems st) (shippingAddress st) db = (db1, r1)"
    by (cases "create_order e uid (cartItems st) (shippingAddress st) db")
  have o: "orders (fst (handleCheckout e usr st db)) = orders db1"
    using h checkout_try_orders [OF c1] by simp
  show ?thesis
  proof (cases "\<exists>ord. r1 = Resolved (Data ord)")
    case False
    then have "db1 = db" using create_order_other [OF c1] by blast
    with o show ?thesis by simp
  next
    case True
    then obtain ord where "r1 = Resolved (Data ord)" by blast
    with c1 create_order_Data show ?thesis using o by fastforce
  qed
qed


section \<open>The stock loop\<close>

text \<open>A rejected update ends the loop: the lines before it were processed, no line after it is.\<close>

lemma update_stock_loop_rejected_at:
  "k < length items \<Longrightarrow> net e (n + k) = Rejected \<Longrightarrow> \<forall>j<k. net e (n + j) \<noteq> Rejected \<Longrightarrow>
     update_stock_loop e auth n items db =
       (fst (update_stock_loop e auth n (take k items) db), Some thrown_rejection)
     \<and> snd (update_stock_loop e auth n (take k items) db) = None"
proof (induction items arbitrary: k n db)
  case Nil
  then show ?case by simp
next
  case (Cons item rest)
  show ?case
  proof (cases k)
    case 0
    with Cons.prems show ?thesis by simp
  next
    case (Suc k')
    have first: "net e n \<noteq> Rejected"
      using Cons.prems(3) Suc by (metis add.right_neutral zero_less_Suc)
    have later: "k' < length rest" "net e (Suc n + k') = Rejected" "\<forall>j<k'. net e (Suc n + j) \<noteq> Rejected"
      using Cons.prems Suc by auto
    obtain db1 r1 where step:
      "request (net e n) (update_product_stock auth (db_now e n) (cp_id (line_products item))
          (cp_stock (line_products item) - line_quantity item)) db = (db1, r1)"
      by (cases "request (net e n) (update_product_stock auth (db_now e n) (cp_id (line_products item))
          (cp_stock (line_products item) - line_quantity item)) db")
    have "r1 \<noteq> Throws"
      using step first by (auto dest: request_Throws)
    then obtain x where r1: "r1 = Resolved x" by (cases r1) auto
    show ?thesis
      using Cons.IH [OF later, of db1] step r1 Suc by simp
  qed
qed

text \<open>A product that no processed line names is not touched by the loop.\<close>

lemma update_product_stock_Inr:
  "update_product_stock auth now pid n db = Inr (db', u) \<Longrightarrow>
     products db' =
       map (\<lambda>p. if product_id p = pid \<and> policy_products_write db auth
                 then update_updated_at_column_product now (p\<lparr>product_stock := n\<rparr>)
                 else p) (products db)"
  by (auto simp: update_product_stock_def split: if_splits)

lemma stock_request_untouched:
  assumes "request t (update_product_stock auth now pid n) db = (db', r)"
    and "p \<in> set (products db)" and "product_id p \<noteq> pid"
  shows "p \<in> set (products db')"
proof (cases "\<exists>u. r = Resolved (Data u)")
  case True
  then obtain u where "r = Resolved (Data u)" by blast
  with assms(1) have "update_product_stock auth now pid n db = Inr (db', u)"
    by (simp add: request_Data)
  from update_product_stock_Inr [OF this]
  have eq: "set (products db') =
      (\<lambda>p. if product_id p = pid \<and> policy_products_write db auth
                 then update_updated_at_column_product now (p\<lparr>product_stock := n\<rparr>)
                 else p) ` set (products db)"
    by simp
  show ?thesis
    unfolding eq using assms(2,3) by (intro image_eqI [where x = p]) simp_all
next
  case False
  have "db' = db"
  proof (cases r)
    case Throws
    with assms(1) show ?thesis by (simp add: request_Throws)
  next
    case (Resolved x)
    with False obtain err where "x = Error err" by (cases x) auto
    with Resolved assms(1) show ?thesis by (simp add: request_Error)
  qed
  with assms(2) show ?thesis by simp
qed

lemma update_stock_loop_untouched:
  "update_stock_loop e auth n items db = (db', r) \<Longrightarrow> p \<in> set (products db) \<Longrightarrow>
     product_id p \<notin> set (map (\<lambda>item. cp_id (line_products item)) items) \<Longrightarrow>
     p \<in> set (products db')"
proof (induction items arbitrary: n db)
  case Nil
  then show ?case by simp
next
  case (Cons item rest)
  obtain db1 r1 where step:
    "request (net e n) (update_product_stock auth (db_now e n) (cp_id (line_products item))
        (cp_stock (line_products item) - line_quantity item)) db = (db1, r1)"
    by (cases "request (net e n) (update_product_stock auth (db_now e n) (cp_id (line_products item))
        (cp_stock (line_products item) - line_quantity item)) db")
  have p1: "p \<in> set (products db1)"
    using stock_request_untouched [OF step Cons.prems(2)] Cons.prems(3) by simp
  show ?case
  proof (cases r1)
    case Throws
    with Cons.prems(1) step have "db' = db1" by simp
    with p1 show ?thesis by simp
  next
    case (Resolved x)
    with Cons.prems(1) step have "update_stock_loop e auth (Suc n) rest db1 = (db', r)" by simp
    from Cons.IH [OF this p1] Cons.prems(3) show ?thesis by simp
  qed
qed

lemma is_admin_user_roles: "user_roles db' = user_roles db \<Longrightarrow> is_admin db' auth = is_admin db auth"
  by (simp add: is_admin_def has_role_def split: option.splits)

text \<open>A purchaser without the admin role: no request of the loop changes a product.\<close>

lemma stock_request_not_admin:
  assumes "request t (update_product_stock auth now pid n) db = (db', r)" and "\<not> is_admin db auth"
  shows "db' = db"
proof (cases "\<exists>u. r = Resolved (Data u)")
  case True
  then obtain u where "r = Resolved (Data u)" by blast
  with assms(1) have "update_product_stock auth now pid n db = Inr (db', u)"
    by (simp add: request_Data)
  with assms(2) show ?thesis
    by (auto simp: update_product_stock_def policy_products_write_def split: if_splits)
next
  case False
  show ?thesis
  proof (cases r)
    case Throws
    with assms(1) show ?thesis by (simp add: request_Throws)
  next
    case (Resolved x)
    with False obtain err where "x = Error err" by (cases x) auto
    with Resolved assms(1) show ?thesis by (simp add: request_Error)
  qed
qed

lemma update_stock_loop_not_admin:
  "\<not> is_admin db auth \<Longrightarrow> fst (update_stock_loop e auth k items db) = db"
proof (induction items arbitrary: k)
  case Nil
  then show ?case by simp
next
  case (Cons item rest)
  obtain db1 r1 where step:
    "request (net e k) (update_product_stock auth (db_now e k) (cp_id (line_products item))
        (cp_stock (line_products item) - line_quantity item)) db = (db1, r1)"
    by (cases "request (net e k) (update_product_stock auth (db_now e k) (cp_id (line_products item))
        (cp_stock (line_products item) - line_quantity item)) db")
  have same: "db1 = db" using stock_request_not_admin [OF step Cons.prems] .
  show ?case
  proof (cases r1)
    case Throws
    with step same show ?thesis by simp
  next
    case (Resolved x)
    with step same Cons.IH [OF Cons.prems, of "Suc k"] show ?thesis by simp
  qed
qed

text \<open>
  An administrator, every update delivered and in range, no product twice in the cart:
  each product of the cart ends with the stock the page held minus the quantity bought.
\<close>

lemma stock_request_admin:
  assumes "is_admin db auth" and "fits_integer n"
  shows "request Delivered (update_product_stock auth now pid n) db =
      (db\<lparr>products := map (\<lambda>p. if product_id p = pid
                                 then p\<lparr>product_stock := n, product_updated_at := Some now\<rparr>
                                 else p) (products db)\<rparr>, Resolved (Data ()))"
  using assms
  by (simp add: request_def update_product_stock_def policy_products_write_def
      update_updated_at_column_product_def)

lemma update_stock_loop_admin:
  assumes "is_admin db auth"
    and "\<forall>j < length items. net e (k + j) = Delivered"
    and "\<forall>item \<in> set items. fits_integer (cp_stock (line_products item) - line_quantity item)"
    and "distinct (map (\<lambda>item. cp_id (line_products item)) items)"
  shows "snd (update_stock_loop e auth k items db) = None
     \<and> map product_id (products (fst (update_stock_loop e auth k items db)))
         = map product_id (products db)
     \<and> (\<forall>p \<in> set (products (fst (update_stock_loop e auth k items db))).
           (\<forall>item \<in> set items. product_id p = cp_id (line_products item) \<longrightarrow>
              product_stock p = cp_stock (line_products item) - line_quantity item)
           \<and> (product_id p \<notin> set (map (\<lambda>item. cp_id (line_products item)) items) \<longrightarrow>
              p \<in> set (products db)))"
  using assms
proof (induction items arbitrary: k db)
  case Nil
  then show ?case by simp
next
  case (Cons item rest)
  let ?pid = "cp_id (line_products item)"
  let ?n = "cp_stock (line_products item) - line_quantity item"
  let ?set = "\<lambda>p. if product_id p = ?pid
                   then p\<lparr>product_stock := ?n, product_updated_at := Some (db_now e k)\<rparr> else p"
  let ?db1 = "db\<lparr>products := map ?set (products db)\<rparr>"
  let ?out = "fst (update_stock_loop e auth (Suc k) rest ?db1)"
  have first: "net e k = Delivered" using Cons.prems(2) by force
  have fits: "fits_integer ?n" using Cons.prems(3) by simp
  have step: "request (net e k) (update_product_stock auth (db_now e k) ?pid ?n) db
      = (?db1, Resolved (Data ()))"
    unfolding first by (rule stock_request_admin [OF Cons.prems(1) fits])
  have loop: "update_stock_loop e auth k (item # rest) db = update_stock_loop e auth (Suc k) rest ?db1"
    using step by simp
  have admin1: "is_admin ?db1 auth"
    using Cons.prems(1) is_admin_user_roles [of ?db1 db auth] by simp
  have later: "\<forall>j < length rest. net e (Suc k + j) = Delivered"
    using Cons.prems(2) by force
  have fits_rest: "\<forall>item \<in> set rest. fits_integer (cp_stock (line_products item) - line_quantity item)"
    using Cons.prems(3) by simp
  have dist: "distinct (map (\<lambda>item. cp_id (line_products item)) rest)"
    and fresh: "?pid \<notin> set (map (\<lambda>item. cp_id (line_products item)) rest)"
    using Cons.prems(4) by simp_all
  note ih = Cons.IH [OF admin1 later fits_rest dist]
  have ids1: "map product_id (map ?set (products db)) = map product_id (products db)"
    by (induction "products db") auto
  have none: "snd (update_stock_loop e auth k (item # rest) db) = None"
    unfolding loop using ih by blast
  have ids: "map product_id (products (fst (update_stock_loop e auth k (item # rest) db)))
      = map product_id (products db)"
    unfolding loop using ih ids1 by simp
  have each: "(\<forall>line \<in> set (item # rest). product_id p = cp_id (line_products line) \<longrightarrow>
              product_stock p = cp_stock (line_products line) - line_quantity line)
           \<and> (product_id p \<notin> set (map (\<lambda>item. cp_id (line_products item)) (item # rest)) \<longrightarrow>
              p \<in> set (products db))"
    if p: "p \<in> set (products ?out)" for p
  proof -
    from ih p have rest_ok: "\<forall>line \<in> set rest. product_id p = cp_id (line_products line) \<longrightarrow>
              product_stock p = cp_stock (line_products line) - line_quantity line"
      and origin: "product_id p \<notin> set (map (\<lambda>item. cp_id (line_products item)) rest) \<longrightarrow>
              p \<in> set (products ?db1)"
      by blast+
    have head_ok: "product_stock p = ?n" if "product_id p = ?pid"
    proof -
      from that fresh origin have "p \<in> set (products ?db1)" by simp
      then obtain p0 where "p0 \<in> set (products db)" "p = ?set p0" by auto
      with that show ?thesis by (cases "product_id p0 = ?pid") auto
    qed
    have other: "p \<in> set (products db)"
      if "product_id p \<notin> set (map (\<lambda>item. cp_id (line_products item)) (item # rest))"
    proof -
      from that origin have "p \<in> set (products ?db1)" by simp
      then obtain p0 where p0: "p0 \<in> set (products db)" "p = ?set p0" by auto
      with that have "product_id p0 \<noteq> ?pid" by (cases "product_id p0 = ?pid") auto
      with p0 show ?thesis by simp
    qed
    show ?thesis using rest_ok head_ok other by auto
  qed
  show ?case
    using none ids each unfolding loop by blast
qed

lemma handleCheckout_ready:
  assumes "usr = Some uid" "cartId st = Some cid" "cid \<noteq> []" "cartItems st \<noteq> []"
    "trim (shippingAddress st) \<noteq> []"
  shows "handleCheckout e usr st db =
     (case checkout_try e uid cid (cartItems st) (shippingAddress st) db of
        (db', None) \<Rightarrow> (db', toast_success ''Pesanan berhasil dibuat!'')
      | (db', Some x) \<Rightarrow> (db', toast_caught x))"
  using assms by (simp add: handleCheckout_def)


section \<open>The handlers run in the shop\<close>

lemma digit_char_values:
  "digit_char 0 = CHR ''0''" "digit_char (Suc 0) = CHR ''1''" "digit_char 1 = CHR ''1''"
  "digit_char 2 = CHR ''2''" "digit_char 3 = CHR ''3''" "digit_char 4 = CHR ''4''"
  "digit_char 5 = CHR ''5''" "digit_char 6 = CHR ''6''" "digit_char 7 = CHR ''7''"
  "digit_char 8 = CHR ''8''" "digit_char 9 = CHR ''9''"
  by code_simp+

lemma string_of_nat_values:
  "string_of_nat 0 = ''0''" "string_of_nat (Suc 0) = ''1''" "string_of_nat 1 = ''1''"
  "string_of_nat 2 = ''2''" "string_of_nat 3 = ''3''" "string_of_nat 4 = ''4''"
  "string_of_nat 1762000000000 = ''1762000000000''"
  by (simp_all add: string_of_nat.simps digit_char_values)

lemmas statement_defs =
  request_def single_def insert_order_def insert_order_items_def order_item_of_insert_def
  update_order_status_def update_updated_at_column_order_def update_product_stock_def
  update_updated_at_column_product_def select_cart_def insert_cart_def select_cart_item_def
  update_cart_item_quantity_def insert_cart_item_def delete_cart_items_def select_cart_lines_def
  cart_line_of_def fits_integer_def fits_decimal_10_2_def has_role_def is_admin_def
  policy_carts_def policy_cart_items_def policy_orders_insert_def policy_orders_select_def
  policy_orders_update_def policy_order_items_insert_def policy_products_write_def Let_def

lemma shop_tables:
  "user_roles shop =
     [\<lparr>ur_id = ''r1'', ur_user_id = ''customer'', ur_role = role_user, ur_created_at = Some 1000\<rparr>,
      \<lparr>ur_id = ''r2'', ur_user_id = ''manager'', ur_role = role_user, ur_created_at = Some 1000\<rparr>,
      \<lparr>ur_id = ''r3'', ur_user_id = ''manager'', ur_role = role_admin, ur_created_at = Some 1000\<rparr>]"
  "products shop = [paracetamol, tolak_angin]"
  "carts shop =
     [\<lparr>cart_id = ''cart1'', cart_user_id = ''customer'', cart_created_at = Some 2000,
       cart_updated_at = Some 2000\<rparr>,
      \<lparr>cart_id = ''cart2'', cart_user_id = ''manager'', cart_created_at = Some 2000,
       cart_updated_at = Some 2000\<rparr>]"
  "cart_items shop =
     [\<lparr>ci_id = ''i1'', ci_cart_id = ''cart1'', ci_product_id = ''p1'', ci_quantity = 2,
       ci_created_at = Some 3000\<rparr>,
      \<lparr>ci_id = ''i2'', ci_cart_id = ''cart2'', ci_product_id = ''p1'', ci_quantity = 2,
       ci_created_at = Some 3000\<rparr>,
      \<lparr>ci_id = ''i3'', ci_cart_id = ''cart2'', ci_product_id = ''p2'', ci_quantity = 1,
       ci_created_at = Some 3000\<rparr>]"
  "orders shop = []"
  "order_items shop = []"
  by (simp_all add: shop_def)

lemma product_fields:
  "product_id paracetamol = ''p1''" "product_id tolak_angin = ''p2''"
  "product_name paracetamol = ''Paracetamol 500mg''" "product_name tolak_angin = ''Tolak Angin''"
  "product_price paracetamol = 800000" "product_price tolak_angin = 500000"
  "product_stock paracetamol = 120" "product_stock tolak_angin = 200"
  "product_image_url paracetamol = None" "product_image_url tolak_angin = None"
  "product_category_id paracetamol = Some ''c5''" "product_category_id tolak_angin = Some ''c4''"
  "product_is_popular paracetamol = Some False" "product_is_popular tolak_angin = Some True"
  by (simp_all add: paracetamol_def tolak_angin_def)

lemma calm_fields:
  "net calm k = Delivered" "date_now calm = 1762000000000" "db_now calm k = 5000 + k"
  "gen_random_uuid calm k i = ''n'' @ string_of_nat k @ ''.'' @ string_of_nat i"
  by (simp_all add: calm_def)

lemma customer_page_value:
  "customer_page =
     \<lparr>cartItems = [\<lparr>line_id = ''i1'', line_quantity = 2,
                    line_products = \<lparr>cp_id = ''p1'', cp_name = ''Paracetamol 500mg'',
                                      cp_price = 800000, cp_stock = 120, cp_image_url = None\<rparr>\<rparr>],
      cartId = Some ''cart1'', shippingAddress = ''Jl. Merdeka 1''\<rparr>"
  by (simp add: customer_page_def fetchCart_def statement_defs shop_tables product_fields calm_fields blank_page_def)

lemma manager_page_value:
  "manager_page =
     \<lparr>cartItems = [\<lparr>line_id = ''i2'', line_quantity = 2,
                    line_products = \<lparr>cp_id = ''p1'', cp_name = ''Paracetamol 500mg'',
                                      cp_price = 800000, cp_stock = 120, cp_image_url = None\<rparr>\<rparr>,
                   \<lparr>line_id = ''i3'', line_quantity = 1,
                    line_products = \<lparr>cp_id = ''p2'', cp_name = ''Tolak Angin'',
                                      cp_price = 500000, cp_stock = 200, cp_image_url = None\<rparr>\<rparr>],
      cartId = Some ''cart2'', shippingAddress = ''Jl. Merdeka 1''\<rparr>"
  by (simp add: manager_page_def fetchCart_def statement_defs shop_tables product_fields calm_fields blank_page_def)

lemma trim_address: "trim ''Jl. Merdeka 1'' = ''Jl. Merdeka 1''"
  by (simp add: trim_def is_white_space_def)


lemmas shop_defs = shop_def paracetamol_def tolak_angin_def calm_def blank_page_def
  rejecting_def dropping_def

lemmas order_defs = customer_order_def customer_order_rows_def manager_order_def
  manager_order_rows_def ordered_def itemised_def

lemmas checkout_defs =
  handleCheckout_def checkout_try_def create_order_def create_order_items_def clear_cart_def
  calculateTotal_def order_item_of_line_def

lemma customer_checkout_run:
  "handleCheckout calm (Some ''customer'') customer_page shop =
     (shop\<lparr>cart_items :=
              [\<lparr>ci_id = ''i2'', ci_cart_id = ''cart2'', ci_product_id = ''p1'', ci_quantity = 2,
                ci_created_at = Some 3000\<rparr>,
               \<lparr>ci_id = ''i3'', ci_cart_id = ''cart2'', ci_product_id = ''p2'', ci_quantity = 1,
                ci_created_at = Some 3000\<rparr>],
            orders := [customer_order], order_items := customer_order_rows\<rparr>,
      toast_success ''Pesanan berhasil dibuat!'')"
  by (simp add: customer_page_value checkout_defs trim_address statement_defs shop_defs
      order_defs string_of_nat_values)

lemma manager_checkout_run:
  "handleCheckout calm (Some ''manager'') manager_page shop =
     (shop\<lparr>products :=
              [paracetamol\<lparr>product_stock := 118, product_updated_at := Some 5002\<rparr>,
               tolak_angin\<lparr>product_stock := 199, product_updated_at := Some 5003\<rparr>],
            cart_items :=
              [\<lparr>ci_id = ''i1'', ci_cart_id = ''cart1'', ci_product_id = ''p1'', ci_quantity = 2,
                ci_created_at = Some 3000\<rparr>],
            orders := [manager_order], order_items := manager_order_rows\<rparr>,
      toast_success ''Pesanan berhasil dibuat!'')"
  by (simp add: manager_page_value checkout_defs trim_address statement_defs shop_defs
      order_defs string_of_nat_values)

lemma manager_failed_update_run:
  "handleCheckout (dropping 2) (Some ''manager'') manager_page shop =
     (itemised\<lparr>products :=
          [paracetamol, tolak_angin\<lparr>product_stock := 199, product_updated_at := Some 5003\<rparr>],
        cart_items :=
          [\<lparr>ci_id = ''i1'', ci_cart_id = ''cart1'', ci_product_id = ''p1'', ci_quantity = 2,
            ci_created_at = Some 3000\<rparr>]\<rparr>,
      toast_success ''Pesanan berhasil dibuat!'')"
  by (simp add: manager_page_value checkout_defs trim_address statement_defs shop_defs
      order_defs string_of_nat_values)

lemma manager_failed_delete_run:
  "handleCheckout (dropping 4) (Some ''manager'') manager_page shop =
     (itemised\<lparr>products :=
          [paracetamol\<lparr>product_stock := 118, product_updated_at := Some 5002\<rparr>,
           tolak_angin\<lparr>product_stock := 199, product_updated_at := Some 5003\<rparr>]\<rparr>,
      toast_success ''Pesanan berhasil dibuat!'')"
  by (simp add: manager_page_value checkout_defs trim_address statement_defs shop_defs
      order_defs string_of_nat_values)

lemma customer_two_lines_page_value:
  "customer_two_lines_page =
     \<lparr>cartItems = [\<lparr>line_id = ''i1'', line_quantity = 2,
                    line_products = \<lparr>cp_id = ''p1'', cp_name = ''Paracetamol 500mg'',
                                      cp_price = 800000, cp_stock = 120, cp_image_url = None\<rparr>\<rparr>,
                   \<lparr>line_id = ''i4'', line_quantity = 3,
                    line_products = \<lparr>cp_id = ''p2'', cp_name = ''Tolak Angin'',
                                      cp_price = 500000, cp_stock = 200, cp_image_url = None\<rparr>\<rparr>],
      cartId = Some ''cart1'', shippingAddress = ''Jl. Merdeka 1''\<rparr>"
  by (simp add: customer_two_lines_page_def shop_two_lines_def fetchCart_def statement_defs shop_defs)

lemma customer_rejected_update_run:
  "handleCheckout (rejecting 3) (Some ''customer'') customer_two_lines_page shop_two_lines =
     (shop_two_lines\<lparr>orders := [customer_order\<lparr>order_total_amount := 3100000\<rparr>],
        order_items :=
          [\<lparr>oi_id = ''n1.0'', oi_order_id = ''n0.0'', oi_product_id = Some ''p1'',
            oi_product_name = ''Paracetamol 500mg'', oi_product_price = 800000,
            oi_quantity = 2, oi_subtotal = 1600000, oi_created_at = Some 5001\<rparr>,
           \<lparr>oi_id = ''n1.1'', oi_order_id = ''n0.0'', oi_product_id = Some ''p2'',
            oi_product_name = ''Tolak Angin'', oi_product_price = 500000,
            oi_quantity = 3, oi_subtotal = 1500000, oi_created_at = Some 5001\<rparr>]\<rparr>,
      toast_caught thrown_rejection)"
  by (simp add: customer_two_lines_page_value checkout_defs trim_address statement_defs shop_defs
      shop_two_lines_def order_defs string_of_nat_values rejecting_def)

lemma manager_create_order:
  "create_order (dropping 0) ''manager'' (cartItems manager_page) ''Jl. Merdeka 1'' shop =
     (shop, Resolved (Error network_error))"
  "create_order (dropping 1) ''manager'' (cartItems manager_page) ''Jl. Merdeka 1'' shop =
     (ordered, Resolved (Data manager_order))"
  "create_order (rejecting 3) ''manager'' (cartItems manager_page) ''Jl. Merdeka 1'' shop =
     (ordered, Resolved (Data manager_order))"
  "create_order (rejecting 4) ''manager'' (cartItems manager_page) ''Jl. Merdeka 1'' shop =
     (ordered, Resolved (Data manager_order))"
  by (simp_all add: manager_page_value checkout_defs statement_defs shop_defs
      order_defs string_of_nat_values)

lemma manager_create_order_items:
  "create_order_items (dropping 1) ''manager'' manager_order (cartItems manager_page) ordered =
     (ordered, Resolved (Error network_error))"
  "create_order_items (rejecting 3) ''manager'' manager_order (cartItems manager_page) ordered =
     (itemised, Resolved (Data ()))"
  "create_order_items (rejecting 4) ''manager'' manager_order (cartItems manager_page) ordered =
     (itemised, Resolved (Data ()))"
  by (simp_all add: manager_page_value checkout_defs statement_defs shop_defs
      order_defs string_of_nat_values)

lemma manager_stock_loop:
  "update_stock_loop (rejecting 3) (Some ''manager'') 2 (take 1 (cartItems manager_page)) itemised =
     (itemised\<lparr>products :=
         [paracetamol\<lparr>product_stock := 118, product_updated_at := Some 5002\<rparr>, tolak_angin]\<rparr>, None)"
  "update_stock_loop (rejecting 4) (Some ''manager'') 2 (cartItems manager_page) itemised =
     (itemised\<lparr>products :=
         [paracetamol\<lparr>product_stock := 118, product_updated_at := Some 5002\<rparr>,
          tolak_angin\<lparr>product_stock := 199, product_updated_at := Some 5003\<rparr>]\<rparr>, None)"
  by (simp_all add: manager_page_value statement_defs shop_defs order_defs)


section \<open>Checkout refused before any request\<close>

text \<open>
  C3. A checkout whose shipping address is empty or holds only white space leaves the
  whole database as it was: no order is created and no stock is changed.
\<close>

theorem checkout_blank_address_unchanged:
  "trim (shippingAddress st) = [] \<Longrightarrow> fst (handleCheckout e usr st db) = db"
  by (simp add: handleCheckout_def split: option.splits)

theorem checkout_blank_address_unchanged_witness:
  "trim (shippingAddress (customer_page\<lparr>shippingAddress := ''  ''\<rparr>)) = []
   \<and> fst (handleCheckout calm (Some ''customer'') (customer_page\<lparr>shippingAddress := ''  ''\<rparr>) shop) = shop"
proof -
  have h: "trim (shippingAddress (customer_page\<lparr>shippingAddress := ''  ''\<rparr>)) = []"
    by (simp add: trim_def is_white_space_def)
  show ?thesis
    by (rule conjI [OF h checkout_blank_address_unchanged [OF h]])
qed

text \<open>
  C4. A checkout on a cart without items leaves the whole database as it was: no order
  is created.
\<close>

theorem checkout_empty_cart_unchanged:
  "cartItems st = [] \<Longrightarrow> fst (handleCheckout e usr st db) = db"
  by (simp add: handleCheckout_def split: option.splits)

theorem checkout_empty_cart_unchanged_witness:
  "cartItems (blank_page\<lparr>cartId := Some ''cart1''\<rparr>) = []
   \<and> fst (handleCheckout calm (Some ''customer'') (blank_page\<lparr>cartId := Some ''cart1''\<rparr>) shop) = shop"
proof -
  have h: "cartItems (blank_page\<lparr>cartId := Some ''cart1''\<rparr>) = []"
    by (simp add: blank_page_def)
  show ?thesis
    by (rule conjI [OF h checkout_empty_cart_unchanged [OF h]])
qed

section \<open>What a checkout stores\<close>

text \<open>
  C10. Every order that a checkout adds to the orders table has the payment method "cash"
  and the order number "WM" followed by the digits of \<^verbatim>\<open>Date.now()\<close>. The page state
  has no field for a payment method: whatever the state, the stored value is the same.
\<close>

theorem checkout_order_cash_and_number:
  "ord \<in> set (orders (fst (handleCheckout e usr st db))) \<Longrightarrow> ord \<notin> set (orders db) \<Longrightarrow>
     order_payment_method ord = Some ''cash''
     \<and> order_number ord = ''WM'' @ string_of_nat (date_now e)"
  using handleCheckout_orders [of e usr st db] by auto


theorem checkout_order_cash_and_number_witness:
  "customer_order \<in> set (orders (fst (handleCheckout calm (Some ''customer'') customer_page shop)))
   \<and> customer_order \<notin> set (orders shop)
   \<and> order_payment_method customer_order = Some ''cash''
   \<and> order_number customer_order = ''WM'' @ string_of_nat (date_now calm)"
proof -
  have h1: "customer_order \<in> set (orders (fst (handleCheckout calm (Some ''customer'') customer_page shop)))"
    by (simp add: customer_checkout_run)
  have h2: "customer_order \<notin> set (orders shop)"
    by (simp add: shop_tables)
  show ?thesis
    by (intro conjI h1 h2 checkout_order_cash_and_number [OF h1 h2, THEN conjunct1]
        checkout_order_cash_and_number [OF h1 h2, THEN conjunct2])
qed

text \<open>
  C1. The checkout of the specification's scenario, run by the customer: the handler
  reports success, the order of 16000 with its one item of 16000 is stored and the cart
  is emptied, and the stock of the product bought stays 120. The customer is no
  administrator, so the policy on products lets the request "Update product stock" write
  no row, and the handler does not read the result of that request.
\<close>

theorem customer_checkout_keeps_stock:
  "snd (handleCheckout calm (Some ''customer'') customer_page shop)
     = toast_success ''Pesanan berhasil dibuat!''
   \<and> map (\<lambda>item. (cp_id (line_products item), line_quantity item)) (cartItems customer_page)
     = [(''p1'', 2)]
   \<and> orders (fst (handleCheckout calm (Some ''customer'') customer_page shop)) = [customer_order]
   \<and> order_total_amount customer_order = 1600000
   \<and> map oi_subtotal (order_items (fst (handleCheckout calm (Some ''customer'') customer_page shop)))
     = [1600000]
   \<and> filter (\<lambda>i. ci_cart_id i = ''cart1'')
       (cart_items (fst (handleCheckout calm (Some ''customer'') customer_page shop))) = []
   \<and> map (\<lambda>p. (product_id p, product_stock p)) (products shop) = [(''p1'', 120), (''p2'', 200)]
   \<and> map (\<lambda>p. (product_id p, product_stock p))
       (products (fst (handleCheckout calm (Some ''customer'') customer_page shop)))
     = [(''p1'', 120), (''p2'', 200)]"
  unfolding customer_checkout_run
  by (simp add: customer_page_value shop_tables product_fields order_defs)

text \<open>
  What an exception in the try block does: it ends the block, and what the requests before
  it wrote stays written. With the guards of the handler passed: if the request that creates
  the order does not resolve with the order, the database is as before; if the request that
  creates the order items does not resolve with data, the order is stored and nothing else
  has changed, so no stock is decremented; if the update for cart line \<open>k\<close> is rejected, the
  database is the one that the updates for the lines before \<open>k\<close> left, no product outside
  those lines is touched and the cart keeps its items; if the request that clears the cart is
  rejected, all updates stay and the cart keeps its items. In each case the handler shows
  the caught exception. The handler throws the error of the first two requests itself; of
  the later requests only a rejected promise is an exception.
\<close>

lemma checkout_exception_aborts_without_rollback:
  assumes "usr = Some uid" and "cartId st = Some cid" and "cid \<noteq> []"
    and "cartItems st = items" and "items \<noteq> []"
    and "shippingAddress st = addr" and "trim addr \<noteq> []"
  shows
    "((\<forall>ord. snd (create_order e uid items addr db) \<noteq> Resolved (Data ord)) \<longrightarrow>
        fst (handleCheckout e usr st db) = db
        \<and> (\<exists>x. snd (handleCheckout e usr st db) = toast_caught x))
     \<and> (create_order e uid items addr db = (db1, Resolved (Data ord))
        \<and> (\<forall>u. snd (create_order_items e uid ord items db1) \<noteq> Resolved (Data u)) \<longrightarrow>
        fst (handleCheckout e usr st db) = db\<lparr>orders := orders db @ [ord]\<rparr>
        \<and> (\<exists>x. snd (handleCheckout e usr st db) = toast_caught x))
     \<and> (create_order e uid items addr db = (db1, Resolved (Data ord))
        \<and> create_order_items e uid ord items db1 = (db2, Resolved (Data ()))
        \<and> k < length items \<and> net e (2 + k) = Rejected \<and> (\<forall>j<k. net e (2 + j) \<noteq> Rejected) \<longrightarrow>
        handleCheckout e usr st db =
          (fst (update_stock_loop e (Some uid) 2 (take k items) db2), toast_caught thrown_rejection)
        \<and> cart_items (fst (handleCheckout e usr st db)) = cart_items db
        \<and> (\<forall>p \<in> set (products db).
              product_id p \<notin> set (map (\<lambda>item. cp_id (line_products item)) (take k items)) \<longrightarrow>
              p \<in> set (products (fst (handleCheckout e usr st db)))))
     \<and> (create_order e uid items addr db = (db1, Resolved (Data ord))
        \<and> create_order_items e uid ord items db1 = (db2, Resolved (Data ()))
        \<and> update_stock_loop e (Some uid) 2 items db2 = (db3, None)
        \<and> net e (2 + length items) = Rejected \<longrightarrow>
        handleCheckout e usr st db = (db3, toast_caught thrown_rejection))"
proof -
  have run: "handleCheckout e usr st db =
     (case checkout_try e uid cid items addr db of
        (db', None) \<Rightarrow> (db', toast_success ''Pesanan berhasil dibuat!'')
      | (db', Some x) \<Rightarrow> (db', toast_caught x))"
    using handleCheckout_ready [of usr uid st cid e db] assms by simp
  have first: "fst (handleCheckout e usr st db) = db
        \<and> (\<exists>x. snd (handleCheckout e usr st db) = toast_caught x)"
    if none: "\<forall>ord. snd (create_order e uid items addr db) \<noteq> Resolved (Data ord)"
  proof -
    obtain d r where c1: "create_order e uid items addr db = (d, r)"
      by (cases "create_order e uid items addr db")
    have "d = db" using create_order_other [OF c1] none c1 by simp
    moreover have "\<exists>x. checkout_try e uid cid items addr db = (d, Some x)"
      using c1 none by (cases r) (auto simp: checkout_try_def split: response.splits)
    ultimately show ?thesis using run by auto
  qed
  have second: "fst (handleCheckout e usr st db) = db\<lparr>orders := orders db @ [ord]\<rparr>
        \<and> (\<exists>x. snd (handleCheckout e usr st db) = toast_caught x)"
    if c1: "create_order e uid items addr db = (db1, Resolved (Data ord))"
      and none: "\<forall>u. snd (create_order_items e uid ord items db1) \<noteq> Resolved (Data u)"
  proof -
    obtain d r where c2: "create_order_items e uid ord items db1 = (d, r)"
      by (cases "create_order_items e uid ord items db1")
    have "d = db1" using create_order_items_other [OF c2] none c2 by simp
    moreover have "db1 = db\<lparr>orders := orders db @ [ord]\<rparr>"
      using create_order_Data [OF c1] by simp
    moreover have "\<exists>x. checkout_try e uid cid items addr db = (d, Some x)"
      using c1 c2 none by (cases r) (auto simp: checkout_try_def split: response.splits)
    ultimately show ?thesis using run by auto
  qed
  have third: "handleCheckout e usr st db =
          (fst (update_stock_loop e (Some uid) 2 (take k items) db2), toast_caught thrown_rejection)
        \<and> cart_items (fst (handleCheckout e usr st db)) = cart_items db
        \<and> (\<forall>p \<in> set (products db).
              product_id p \<notin> set (map (\<lambda>item. cp_id (line_products item)) (take k items)) \<longrightarrow>
              p \<in> set (products (fst (handleCheckout e usr st db))))"
    if c1: "create_order e uid items addr db = (db1, Resolved (Data ord))"
      and c2: "create_order_items e uid ord items db1 = (db2, Resolved (Data ()))"
      and k: "k < length items" "net e (2 + k) = Rejected" "\<forall>j<k. net e (2 + j) \<noteq> Rejected"
  proof -
    obtain dk rk where pre: "update_stock_loop e (Some uid) 2 (take k items) db2 = (dk, rk)"
      by (cases "update_stock_loop e (Some uid) 2 (take k items) db2")
    have loop: "update_stock_loop e (Some uid) 2 items db2 = (dk, Some thrown_rejection)"
      using update_stock_loop_rejected_at [OF k, of "Some uid" db2] pre by simp
    have res: "handleCheckout e usr st db = (dk, toast_caught thrown_rejection)"
      using run c1 c2 loop by (simp add: checkout_try_def)
    have "db1 = db\<lparr>orders := orders db @ [ord]\<rparr>"
      using create_order_Data [OF c1] by simp
    then have t1: "cart_items db1 = cart_items db" "products db1 = products db" by simp_all
    have t2: "cart_items db2 = cart_items db1" "products db2 = products db1"
      using create_order_items_orders [OF c2] by simp_all
    have t3: "cart_items dk = cart_items db2"
      using update_stock_loop_fields(3) [OF pre] .
    have untouched: "p \<in> set (products dk)"
      if "p \<in> set (products db)"
        and "product_id p \<notin> set (map (\<lambda>item. cp_id (line_products item)) (take k items))" for p
      using update_stock_loop_untouched [OF pre, of p] that t1 t2 by simp
    show ?thesis
      using res pre t1 t2 t3 untouched by simp
  qed
  have fourth: "handleCheckout e usr st db = (db3, toast_caught thrown_rejection)"
    if c1: "create_order e uid items addr db = (db1, Resolved (Data ord))"
      and c2: "create_order_items e uid ord items db1 = (db2, Resolved (Data ()))"
      and c3: "update_stock_loop e (Some uid) 2 items db2 = (db3, None)"
      and c4: "net e (2 + length items) = Rejected"
    using run c1 c2 c3 c4 by (simp add: checkout_try_def clear_cart_def)
  show ?thesis
    using first second third fourth by blast
qed


lemma checkout_exceptions_in_the_shop:
  "snd (create_order (dropping 0) ''manager'' (cartItems manager_page) ''Jl. Merdeka 1'' shop)
     = Resolved (Error network_error)
   \<and> fst (handleCheckout (dropping 0) (Some ''manager'') manager_page shop) = shop
   \<and> create_order (dropping 1) ''manager'' (cartItems manager_page) ''Jl. Merdeka 1'' shop
     = (ordered, Resolved (Data manager_order))
   \<and> snd (create_order_items (dropping 1) ''manager'' manager_order (cartItems manager_page) ordered)
     = Resolved (Error network_error)
   \<and> fst (handleCheckout (dropping 1) (Some ''manager'') manager_page shop)
     = shop\<lparr>orders := orders shop @ [manager_order]\<rparr>
   \<and> create_order_items (rejecting 3) ''manager'' manager_order (cartItems manager_page) ordered
     = (itemised, Resolved (Data ()))
   \<and> net (rejecting 3) 2 = Delivered \<and> net (rejecting 3) 3 = Rejected
   \<and> handleCheckout (rejecting 3) (Some ''manager'') manager_page shop
     = (itemised\<lparr>products :=
          [paracetamol\<lparr>product_stock := 118, product_updated_at := Some 5002\<rparr>, tolak_angin]\<rparr>,
        toast_caught thrown_rejection)
   \<and> cart_items (fst (handleCheckout (rejecting 3) (Some ''manager'') manager_page shop))
     = cart_items shop
   \<and> net (rejecting 4) 4 = Rejected
   \<and> handleCheckout (rejecting 4) (Some ''manager'') manager_page shop
     = (itemised\<lparr>products :=
          [paracetamol\<lparr>product_stock := 118, product_updated_at := Some 5002\<rparr>,
           tolak_angin\<lparr>product_stock := 199, product_updated_at := Some 5003\<rparr>]\<rparr>,
        toast_caught thrown_rejection)"
proof -
  let ?items = "cartItems manager_page"
  have ready: "cartId manager_page = Some ''cart2''" "''cart2'' \<noteq> []" "?items = ?items"
    "?items \<noteq> []" "shippingAddress manager_page = ''Jl. Merdeka 1''"
    "trim ''Jl. Merdeka 1'' \<noteq> []"
    by (simp_all add: manager_page_value trim_address)
  note inst = checkout_exception_aborts_without_rollback [OF refl ready]
  have a0: "snd (create_order (dropping 0) ''manager'' ?items ''Jl. Merdeka 1'' shop)
      = Resolved (Error network_error)"
    by (simp only: manager_create_order snd_conv)
  then have a1: "\<forall>ord. snd (create_order (dropping 0) ''manager'' ?items ''Jl. Merdeka 1'' shop)
      \<noteq> Resolved (Data ord)"
    by simp
  have a: "fst (handleCheckout (dropping 0) (Some ''manager'') manager_page shop) = shop"
    using inst [where e = "dropping 0" and db = shop, THEN conjunct1] a1 by blast
  have b0: "snd (create_order_items (dropping 1) ''manager'' manager_order ?items ordered)
      = Resolved (Error network_error)"
    by (simp only: manager_create_order_items snd_conv)
  then have b1: "\<forall>u. snd (create_order_items (dropping 1) ''manager'' manager_order ?items ordered)
      \<noteq> Resolved (Data u)"
    by simp
  have b: "fst (handleCheckout (dropping 1) (Some ''manager'') manager_page shop)
      = shop\<lparr>orders := orders shop @ [manager_order]\<rparr>"
    using inst [where e = "dropping 1" and db = shop and ?db1.0 = ordered and ord = manager_order,
        THEN conjunct2, THEN conjunct1] manager_create_order(2) b1 by blast
  have c0: "net (rejecting 3) 2 = Delivered" "net (rejecting 3) 3 = Rejected"
    by (simp_all add: rejecting_def calm_def)
  have c1: "(1::nat) < length ?items" "net (rejecting 3) (2 + 1) = Rejected"
    "\<forall>j<1. net (rejecting 3) (2 + j) \<noteq> Rejected"
    using c0 by (simp_all add: manager_page_value)
  have c2: "handleCheckout (rejecting 3) (Some ''manager'') manager_page shop =
          (fst (update_stock_loop (rejecting 3) (Some ''manager'') 2 (take 1 ?items) itemised),
           toast_caught thrown_rejection)
        \<and> cart_items (fst (handleCheckout (rejecting 3) (Some ''manager'') manager_page shop))
          = cart_items shop"
    using inst [where e = "rejecting 3" and db = shop and ?db1.0 = ordered and ord = manager_order
          and ?db2.0 = itemised and k = 1, THEN conjunct2, THEN conjunct2, THEN conjunct1]
      manager_create_order(3) manager_create_order_items(2) c1 by blast
  have c: "handleCheckout (rejecting 3) (Some ''manager'') manager_page shop
     = (itemised\<lparr>products :=
          [paracetamol\<lparr>product_stock := 118, product_updated_at := Some 5002\<rparr>, tolak_angin]\<rparr>,
        toast_caught thrown_rejection)"
    by (simp only: c2 [THEN conjunct1] manager_stock_loop(1) fst_conv)
  have d0: "net (rejecting 4) 4 = Rejected"
    by (simp add: rejecting_def calm_def)
  then have d1: "net (rejecting 4) (2 + length ?items) = Rejected"
    by (simp add: manager_page_value)
  have d: "handleCheckout (rejecting 4) (Some ''manager'') manager_page shop
     = (itemised\<lparr>products :=
          [paracetamol\<lparr>product_stock := 118, product_updated_at := Some 5002\<rparr>,
           tolak_angin\<lparr>product_stock := 199, product_updated_at := Some 5003\<rparr>]\<rparr>,
        toast_caught thrown_rejection)"
    using inst [where e = "rejecting 4" and db = shop and ?db1.0 = ordered and ord = manager_order
          and ?db2.0 = itemised, THEN conjunct2, THEN conjunct2, THEN conjunct2]
      manager_create_order(4) manager_create_order_items(3) manager_stock_loop(2) d1 by blast
  show ?thesis
    by (intro conjI a0 a manager_create_order(2) b0 b manager_create_order_items(2) c0 c
        c2 [THEN conjunct2] d0 d)
qed

text \<open>
  C2. Three checkouts in which a request of the stock loop or the request that clears the
  cart fails. The administrator's checkout whose first stock update is dropped by the
  network: the request resolves with an error that the handler does not read, so nothing is
  aborted; the second product is decremented, the first is not, the cart is emptied and the
  handler reports success. The administrator's checkout whose cart deletion is dropped: the
  handler reports success and the cart keeps all its items. The customer's checkout of two
  lines whose second stock update is rejected: the handler shows the exception and the order
  and its items stay stored, but no product is decremented, the first no more than the
  second, because the customer is no administrator.
\<close>

theorem checkout_failed_request_neither_aborts_nor_splits_stock:
  "net (dropping 2) 2 = Dropped
   \<and> map (\<lambda>item. (cp_id (line_products item), cp_stock (line_products item), line_quantity item))
       (cartItems manager_page) = [(''p1'', 120, 2), (''p2'', 200, 1)]
   \<and> snd (handleCheckout (dropping 2) (Some ''manager'') manager_page shop)
       = toast_success ''Pesanan berhasil dibuat!''
   \<and> map (\<lambda>p. (product_id p, product_stock p))
       (products (fst (handleCheckout (dropping 2) (Some ''manager'') manager_page shop)))
       = [(''p1'', 120), (''p2'', 199)]
   \<and> map ci_id (filter (\<lambda>i. ci_cart_id i = ''cart2'') (cart_items shop)) = [''i2'', ''i3'']
   \<and> filter (\<lambda>i. ci_cart_id i = ''cart2'')
       (cart_items (fst (handleCheckout (dropping 2) (Some ''manager'') manager_page shop))) = []
   \<and> net (dropping 4) 4 = Dropped
   \<and> snd (handleCheckout (dropping 4) (Some ''manager'') manager_page shop)
       = toast_success ''Pesanan berhasil dibuat!''
   \<and> cart_items (fst (handleCheckout (dropping 4) (Some ''manager'') manager_page shop))
       = cart_items shop
   \<and> net (rejecting 3) 2 = Delivered \<and> net (rejecting 3) 3 = Rejected
   \<and> is_admin shop_two_lines (Some ''customer'') = False
   \<and> map (\<lambda>item. (cp_id (line_products item), cp_stock (line_products item), line_quantity item))
       (cartItems customer_two_lines_page) = [(''p1'', 120, 2), (''p2'', 200, 3)]
   \<and> snd (handleCheckout (rejecting 3) (Some ''customer'') customer_two_lines_page shop_two_lines)
       = toast_caught thrown_rejection
   \<and> map order_total_amount
       (orders (fst (handleCheckout (rejecting 3) (Some ''customer'') customer_two_lines_page
          shop_two_lines))) = [3100000]
   \<and> map oi_subtotal
       (order_items (fst (handleCheckout (rejecting 3) (Some ''customer'') customer_two_lines_page
          shop_two_lines))) = [1600000, 1500000]
   \<and> map (\<lambda>p. (product_id p, product_stock p))
       (products (fst (handleCheckout (rejecting 3) (Some ''customer'') customer_two_lines_page
          shop_two_lines)))
       = [(''p1'', 120), (''p2'', 200)]"
  unfolding manager_failed_update_run manager_failed_delete_run customer_rejected_update_run
  by (simp add: manager_page_value customer_two_lines_page_value shop_tables product_fields
      order_defs shop_two_lines_def dropping_def rejecting_def calm_def is_admin_def has_role_def)


section \<open>Status of an order\<close>

lemma shop_sold_tables:
  "user_roles shop_sold = user_roles shop" "products shop_sold = products shop"
  "carts shop_sold = carts shop" "cart_items shop_sold = cart_items shop"
  "orders shop_sold = [placed_order]" "order_items shop_sold = order_items shop"
  by (simp_all add: shop_sold_def)

lemma manager_is_admin: "is_admin shop (Some ''manager'')" "is_admin shop_sold (Some ''manager'')"
  by (simp_all add: is_admin_def has_role_def shop_sold_tables shop_tables)

text \<open>
  The administrator sets the order placed at time 4000 to "shipped" at time 5000. As C7 is
  stated, the order afterwards would be the old one with only the status replaced; the
  trigger \<^verbatim>\<open>update_orders_updated_at\<close> has replaced \<^verbatim>\<open>updated_at\<close> as well.
\<close>

theorem status_update_touches_updated_at:
  "is_admin shop_sold (Some ''manager'') \<and> net calm 0 = Delivered
   \<and> orders shop_sold = [placed_order] \<and> order_updated_at placed_order = Some 4000
   \<and> orders (fst (updateOrderStatus calm (Some ''manager'') ''o1'' ''shipped'' shop_sold))
       = [placed_order\<lparr>order_status := ''shipped'', order_updated_at := Some 5000\<rparr>]
   \<and> orders (fst (updateOrderStatus calm (Some ''manager'') ''o1'' ''shipped'' shop_sold))
       \<noteq> [placed_order\<lparr>order_status := ''shipped''\<rparr>]"
  by (simp add: updateOrderStatus_def statement_defs shop_sold_tables shop_tables calm_fields
      placed_order_def)

text \<open>
  C7, amended. When an administrator sets the status of an order and the request is
  delivered, the order with that id has the chosen status and the time of the update as
  \<^verbatim>\<open>updated_at\<close>; no other field of it and no other order changes, and the handler
  reports success. Neither the old nor the new status is looked at: every transition
  between the six values of the selector, and any other, is made.
\<close>

theorem status_update_sets_status_and_updated_at:
  "is_admin db usr \<Longrightarrow> net e 0 = Delivered \<Longrightarrow>
     updateOrderStatus e usr orderId status db =
       (db\<lparr>orders :=
            map (\<lambda>ord. if order_id ord = orderId
                        then ord\<lparr>order_status := status, order_updated_at := Some (db_now e 0)\<rparr>
                        else ord) (orders db)\<rparr>,
        toast_success ''Status berhasil diupdate'')"
  by (simp add: updateOrderStatus_def request_def update_order_status_def
      update_updated_at_column_order_def policy_orders_select_def policy_orders_update_def)

theorem status_update_sets_status_and_updated_at_witness:
  "is_admin shop_sold (Some ''manager'') \<and> net calm 0 = Delivered
   \<and> updateOrderStatus calm (Some ''manager'') ''o1'' ''shipped'' shop_sold =
       (shop_sold\<lparr>orders :=
            map (\<lambda>ord. if order_id ord = ''o1''
                        then ord\<lparr>order_status := ''shipped'', order_updated_at := Some (db_now calm 0)\<rparr>
                        else ord) (orders shop_sold)\<rparr>,
        toast_success ''Status berhasil diupdate'')"
proof -
  have h1: "is_admin shop_sold (Some ''manager'')" by (rule manager_is_admin)
  have h2: "net calm 0 = Delivered" by (simp add: calm_fields)
  show ?thesis
    by (intro conjI h1 h2 status_update_sets_status_and_updated_at [OF h1 h2])
qed


section \<open>Quantity of a cart item\<close>

text \<open>
  C6. \<^verbatim>\<open>updateQuantity\<close> with a value below 1 returns at once and leaves the database as it
  was, so the item keeps its quantity. With a value of at least 1 that fits the column,
  and the request delivered, the rows with the given id that the caller's policy passes
  get the new quantity and nothing else changes: an item of the caller's own cart has the
  new quantity afterwards.
\<close>

theorem updateQuantity_below_one_or_set:
  "(newQuantity < 1 \<longrightarrow> updateQuantity e usr itemId newQuantity db = (db, no_notice))
   \<and> (1 \<le> newQuantity \<and> fits_integer newQuantity \<and> net e 0 = Delivered \<longrightarrow>
        fst (updateQuantity e usr itemId newQuantity db) =
          db\<lparr>cart_items :=
               map (\<lambda>i. if ci_id i = itemId \<and> policy_cart_items db usr i
                         then i\<lparr>ci_quantity := newQuantity\<rparr> else i) (cart_items db)\<rparr>)
   \<and> (1 \<le> newQuantity \<and> fits_integer newQuantity \<and> net e 0 = Delivered
        \<and> item \<in> set (cart_items db) \<and> ci_id item = itemId \<and> policy_cart_items db usr item \<longrightarrow>
        item\<lparr>ci_quantity := newQuantity\<rparr>
          \<in> set (cart_items (fst (updateQuantity e usr itemId newQuantity db))))"
proof -
  let ?set = "\<lambda>i. if ci_id i = itemId \<and> policy_cart_items db usr i
                   then i\<lparr>ci_quantity := newQuantity\<rparr> else i"
  have below: "updateQuantity e usr itemId newQuantity db = (db, no_notice)" if "newQuantity < 1"
    using that by (simp add: updateQuantity_def)
  have set_all: "fst (updateQuantity e usr itemId newQuantity db) =
      db\<lparr>cart_items := map ?set (cart_items db)\<rparr>"
    if "1 \<le> newQuantity" "fits_integer newQuantity" "net e 0 = Delivered"
    using that by (simp add: updateQuantity_def request_def update_cart_item_quantity_def)
  have set_one: "item\<lparr>ci_quantity := newQuantity\<rparr>
      \<in> set (cart_items (fst (updateQuantity e usr itemId newQuantity db)))"
    if ok: "1 \<le> newQuantity" "fits_integer newQuantity" "net e 0 = Delivered"
      and item: "item \<in> set (cart_items db)" "ci_id item = itemId" "policy_cart_items db usr item"
  proof -
    have "item\<lparr>ci_quantity := newQuantity\<rparr> \<in> ?set ` set (cart_items db)"
      by (rule image_eqI [where x = item]) (simp_all add: item)
    then show ?thesis
      by (simp add: set_all [OF ok])
  qed
  show ?thesis
  proof (intro conjI impI)
    assume "newQuantity < 1"
    then show "updateQuantity e usr itemId newQuantity db = (db, no_notice)" by (rule below)
  next
    assume "1 \<le> newQuantity \<and> fits_integer newQuantity \<and> net e 0 = Delivered"
    then show "fst (updateQuantity e usr itemId newQuantity db) =
        db\<lparr>cart_items := map ?set (cart_items db)\<rparr>"
      by (intro set_all) simp_all
  next
    assume "1 \<le> newQuantity \<and> fits_integer newQuantity \<and> net e 0 = Delivered
        \<and> item \<in> set (cart_items db) \<and> ci_id item = itemId \<and> policy_cart_items db usr item"
    then show "item\<lparr>ci_quantity := newQuantity\<rparr>
        \<in> set (cart_items (fst (updateQuantity e usr itemId newQuantity db)))"
      by (intro set_one) simp_all
  qed
qed

theorem updateQuantity_below_one_or_set_witness:
  "(0::int) < 1 \<and> updateQuantity calm (Some ''customer'') ''i1'' 0 shop = (shop, no_notice)
   \<and> (1::int) \<le> 5 \<and> fits_integer 5 \<and> net calm 0 = Delivered
   \<and> hd (cart_items shop) \<in> set (cart_items shop) \<and> ci_id (hd (cart_items shop)) = ''i1''
   \<and> policy_cart_items shop (Some ''customer'') (hd (cart_items shop))
   \<and> (hd (cart_items shop))\<lparr>ci_quantity := 5\<rparr>
       \<in> set (cart_items (fst (updateQuantity calm (Some ''customer'') ''i1'' 5 shop)))"
proof -
  have lo: "(0::int) < 1" by simp
  have hi: "(1::int) \<le> 5" "fits_integer 5" "net calm 0 = Delivered"
    by (simp_all add: fits_integer_def calm_fields)
  have item: "hd (cart_items shop) \<in> set (cart_items shop)" "ci_id (hd (cart_items shop)) = ''i1''"
    "policy_cart_items shop (Some ''customer'') (hd (cart_items shop))"
    by (simp_all add: shop_tables policy_cart_items_def)
  note inst0 = updateQuantity_below_one_or_set
    [where newQuantity = 0 and e = calm and usr = "Some ''customer''" and itemId = "''i1''" and db = shop,
     THEN conjunct1, rule_format, OF lo]
  note inst5 = updateQuantity_below_one_or_set
    [where newQuantity = 5 and e = calm and usr = "Some ''customer''" and itemId = "''i1''" and db = shop
       and item = "hd (cart_items shop)",
     THEN conjunct2, THEN conjunct2, rule_format, OF conjI [OF hi(1) conjI [OF hi(2) conjI [OF hi(3)
       conjI [OF item(1) conjI [OF item(2) item(3)]]]]]]
  show ?thesis
    by (intro conjI lo hi item inst0 inst5)
qed


section \<open>Adding to the cart\<close>

lemma single_Inr: "single rows = Inr x \<longleftrightarrow> rows = [x]"
  by (auto simp: single_def split: list.splits)

lemma select_cart_request:
  assumes "request t (select_cart auth uid) db = (db1, r)"
  shows "db1 = db"
    and "r = Resolved (Data c) \<Longrightarrow>
          filter (\<lambda>c. cart_user_id c = uid \<and> policy_carts auth c) (carts db) = [c]"
proof -
  show "db1 = db"
    using assms by (cases t) (auto simp: request_def select_cart_def split: sum.splits)
  show "filter (\<lambda>c. cart_user_id c = uid \<and> policy_carts auth c) (carts db) = [c]"
    if "r = Resolved (Data c)"
  proof -
    have "select_cart auth uid db = Inr (db1, c)"
      using assms that by (simp add: request_Data)
    then show ?thesis
      by (auto simp: select_cart_def single_Inr split: sum.splits)
  qed
qed

lemma select_cart_item_request:
  assumes "request t (select_cart_item auth cid pid) db = (db1, r)"
  shows "db1 = db"
    and "r = Resolved (Data i) \<Longrightarrow>
          filter (\<lambda>i. ci_cart_id i = cid \<and> ci_product_id i = pid \<and> policy_cart_items db auth i)
            (cart_items db) = [i]"
proof -
  show "db1 = db"
    using assms by (cases t) (auto simp: request_def select_cart_item_def split: sum.splits)
  show "filter (\<lambda>i. ci_cart_id i = cid \<and> ci_product_id i = pid \<and> policy_cart_items db auth i)
            (cart_items db) = [i]"
    if "r = Resolved (Data i)"
  proof -
    have "select_cart_item auth cid pid db = Inr (db1, i)"
      using assms that by (simp add: request_Data)
    then show ?thesis
      by (auto simp: select_cart_item_def single_Inr split: sum.splits)
  qed
qed

lemma insert_cart_request:
  assumes "request t (insert_cart auth new_id now uid) db = (db1, r)"
  shows "r = Resolved (Data c) \<Longrightarrow>
          db1 = db\<lparr>carts := carts db @ [c]\<rparr> \<and> cart_id c = new_id \<and> cart_user_id c = uid
          \<and> new_id \<notin> set (map cart_id (carts db)) \<and> uid \<notin> set (map cart_user_id (carts db))"
    and "\<forall>c. r \<noteq> Resolved (Data c) \<Longrightarrow> db1 = db"
proof -
  show "db1 = db\<lparr>carts := carts db @ [c]\<rparr> \<and> cart_id c = new_id \<and> cart_user_id c = uid
          \<and> new_id \<notin> set (map cart_id (carts db)) \<and> uid \<notin> set (map cart_user_id (carts db))"
    if "r = Resolved (Data c)"
  proof -
    have "insert_cart auth new_id now uid db = Inr (db1, c)"
      using assms that by (simp add: request_Data)
    then show ?thesis
      by (auto simp: insert_cart_def Let_def split: if_splits)
  qed
  show "db1 = db" if "\<forall>c. r \<noteq> Resolved (Data c)"
    using assms that by (cases t) (auto simp: request_def split: sum.splits)
qed

lemma update_cart_item_quantity_request:
  assumes "request t (update_cart_item_quantity auth item_id q) db = (db1, r)"
  shows "r = Resolved (Data u) \<Longrightarrow>
          db1 = db\<lparr>cart_items :=
                  map (\<lambda>i. if ci_id i = item_id \<and> policy_cart_items db auth i
                            then i\<lparr>ci_quantity := q\<rparr> else i) (cart_items db)\<rparr>"
    and "\<forall>u. r \<noteq> Resolved (Data u) \<Longrightarrow> db1 = db"
proof -
  show "db1 = db\<lparr>cart_items :=
                  map (\<lambda>i. if ci_id i = item_id \<and> policy_cart_items db auth i
                            then i\<lparr>ci_quantity := q\<rparr> else i) (cart_items db)\<rparr>"
    if "r = Resolved (Data u)"
  proof -
    have "update_cart_item_quantity auth item_id q db = Inr (db1, u)"
      using assms that by (simp add: request_Data)
    then show ?thesis
      by (auto simp: update_cart_item_quantity_def split: if_splits)
  qed
  show "db1 = db" if "\<forall>u. r \<noteq> Resolved (Data u)"
    using assms that by (cases t) (auto simp: request_def split: sum.splits)
qed

lemma insert_cart_item_request:
  assumes "request t (insert_cart_item auth new_id now cid pid q) db = (db1, r)"
  shows "r = Resolved (Data u) \<Longrightarrow>
          db1 = db\<lparr>cart_items := cart_items db
                  @ [\<lparr>ci_id = new_id, ci_cart_id = cid, ci_product_id = pid, ci_quantity = q,
                      ci_created_at = Some now\<rparr>]\<rparr>
          \<and> (cid, pid) \<notin> set (map (\<lambda>i. (ci_cart_id i, ci_product_id i)) (cart_items db))
          \<and> new_id \<notin> set (map ci_id (cart_items db))
          \<and> policy_cart_items db auth
               \<lparr>ci_id = new_id, ci_cart_id = cid, ci_product_id = pid, ci_quantity = q,
                ci_created_at = Some now\<rparr>"
    and "\<forall>u. r \<noteq> Resolved (Data u) \<Longrightarrow> db1 = db"
proof -
  show "db1 = db\<lparr>cart_items := cart_items db
                  @ [\<lparr>ci_id = new_id, ci_cart_id = cid, ci_product_id = pid, ci_quantity = q,
                      ci_created_at = Some now\<rparr>]\<rparr>
          \<and> (cid, pid) \<notin> set (map (\<lambda>i. (ci_cart_id i, ci_product_id i)) (cart_items db))
          \<and> new_id \<notin> set (map ci_id (cart_items db))
          \<and> policy_cart_items db auth
               \<lparr>ci_id = new_id, ci_cart_id = cid, ci_product_id = pid, ci_quantity = q,
                ci_created_at = Some now\<rparr>"
    if "r = Resolved (Data u)"
  proof -
    have "insert_cart_item auth new_id now cid pid q db = Inr (db1, u)"
      using assms that by (simp add: request_Data)
    then show ?thesis
      by (simp add: insert_cart_item_def Let_def split: if_splits)
  qed
  show "db1 = db" if "\<forall>u. r \<noteq> Resolved (Data u)"
    using assms that by (cases t) (auto simp: request_def split: sum.splits)
qed


text \<open>"Get or create cart" writes at most one row, into carts.\<close>

lemma get_or_create_cart_Inr:
  assumes "get_or_create_cart e uid db = (db1, k, Inr cart)"
  shows "(db1 = db \<and> filter (\<lambda>c. cart_user_id c = uid \<and> policy_carts (Some uid) c) (carts db) = [cart])
         \<or> (db1 = db\<lparr>carts := carts db @ [cart]\<rparr> \<and> cart_user_id cart = uid
             \<and> cart_id cart \<notin> set (map cart_id (carts db))
             \<and> uid \<notin> set (map cart_user_id (carts db)))"
proof -
  obtain d0 r0 where c0: "request (net e 0) (select_cart (Some uid) uid) db = (d0, r0)"
    by (cases "request (net e 0) (select_cart (Some uid) uid) db")
  have d0: "d0 = db" using select_cart_request(1) [OF c0] .
  show ?thesis
  proof (cases r0)
    case Throws
    with assms c0 show ?thesis by (simp add: get_or_create_cart_def)
  next
    case (Resolved x)
    show ?thesis
    proof (cases x)
      case (Data c)
      with assms c0 Resolved have "db1 = d0" "cart = c" by (simp_all add: get_or_create_cart_def)
      with select_cart_request(2) [OF c0] Resolved Data d0 show ?thesis by simp
    next
      case (Error err)
      obtain d1 r1 where c1:
        "request (net e 1) (insert_cart (Some uid) (gen_random_uuid e 1 0) (db_now e 1) uid) d0 = (d1, r1)"
        by (cases "request (net e 1) (insert_cart (Some uid) (gen_random_uuid e 1 0) (db_now e 1) uid) d0")
      have r1: "r1 = Resolved (Data cart)" and "db1 = d1"
        using assms c0 Resolved Error c1
        by (cases r1; simp add: get_or_create_cart_def split: response.splits)+
      with insert_cart_request(1) [OF c1 r1] d0 show ?thesis by simp
    qed
  qed
qed

lemma get_or_create_cart_cart_items:
  assumes "get_or_create_cart e uid db = (db1, k, r)"
  shows "cart_items db1 = cart_items db"
proof -
  obtain d0 r0 where c0: "request (net e 0) (select_cart (Some uid) uid) db = (d0, r0)"
    by (cases "request (net e 0) (select_cart (Some uid) uid) db")
  have d0: "d0 = db" using select_cart_request(1) [OF c0] .
  obtain d1 r1 where c1:
    "request (net e 1) (insert_cart (Some uid) (gen_random_uuid e 1 0) (db_now e 1) uid) d0 = (d1, r1)"
    by (cases "request (net e 1) (insert_cart (Some uid) (gen_random_uuid e 1 0) (db_now e 1) uid) d0")
  have d1: "cart_items d1 = cart_items d0"
  proof (cases "\<exists>c. r1 = Resolved (Data c)")
    case True
    then show ?thesis using insert_cart_request(1) [OF c1] by auto
  next
    case False
    then show ?thesis using insert_cart_request(2) [OF c1] by simp
  qed
  have "db1 = d0 \<or> db1 = d1"
    using assms c0 c1
    by (cases r0; cases r1) (auto simp: get_or_create_cart_def split: response.splits)
  with d0 d1 show ?thesis by auto
qed

text \<open>What the second half of \<^verbatim>\<open>addToCart\<close> leaves when nothing is thrown, and when something is.\<close>

lemma put_in_cart_None:
  assumes "put_in_cart e uid k cart product quantity db = (db', None)"
  shows "(\<exists>i. filter (\<lambda>i. ci_cart_id i = cart_id cart \<and> ci_product_id i = product_id product
                             \<and> policy_cart_items db (Some uid) i) (cart_items db) = [i]
              \<and> db' = db\<lparr>cart_items :=
                     map (\<lambda>j. if ci_id j = ci_id i \<and> policy_cart_items db (Some uid) j
                               then j\<lparr>ci_quantity := ci_quantity i + quantity\<rparr> else j)
                       (cart_items db)\<rparr>)
         \<or> (db' = db\<lparr>cart_items := cart_items db
                  @ [\<lparr>ci_id = gen_random_uuid e (Suc k) 0, ci_cart_id = cart_id cart,
                      ci_product_id = product_id product, ci_quantity = quantity,
                      ci_created_at = Some (db_now e (Suc k))\<rparr>]\<rparr>
             \<and> (cart_id cart, product_id product)
                  \<notin> set (map (\<lambda>i. (ci_cart_id i, ci_product_id i)) (cart_items db))
             \<and> policy_cart_items db (Some uid)
                  \<lparr>ci_id = gen_random_uuid e (Suc k) 0, ci_cart_id = cart_id cart,
                   ci_product_id = product_id product, ci_quantity = quantity,
                   ci_created_at = Some (db_now e (Suc k))\<rparr>)"
proof -
  obtain d1 r1 where c1:
    "request (net e k) (select_cart_item (Some uid) (cart_id cart) (product_id product)) db = (d1, r1)"
    by (cases "request (net e k) (select_cart_item (Some uid) (cart_id cart) (product_id product)) db")
  have d1: "d1 = db" using select_cart_item_request(1) [OF c1] .
  show ?thesis
  proof (cases r1)
    case Throws
    with assms c1 show ?thesis by (simp add: put_in_cart_def)
  next
    case (Resolved x)
    show ?thesis
    proof (cases x)
      case (Data i)
      obtain d2 r2 where c2:
        "request (net e (Suc k)) (update_cart_item_quantity (Some uid) (ci_id i)
            (ci_quantity i + quantity)) d1 = (d2, r2)"
        by (cases "request (net e (Suc k)) (update_cart_item_quantity (Some uid) (ci_id i)
            (ci_quantity i + quantity)) d1")
      have "r2 = Resolved (Data ())" and "db' = d2"
        using assms c1 Resolved Data c2
        by (cases r2; simp add: put_in_cart_def split: response.splits)+
      with update_cart_item_quantity_request(1) [OF c2] select_cart_item_request(2) [OF c1]
        Resolved Data d1
      show ?thesis by simp
    next
      case (Error err)
      obtain d2 r2 where c2:
        "request (net e (Suc k))
            (insert_cart_item (Some uid) (gen_random_uuid e (Suc k) 0) (db_now e (Suc k))
               (cart_id cart) (product_id product) quantity) d1 = (d2, r2)"
        by (cases "request (net e (Suc k))
            (insert_cart_item (Some uid) (gen_random_uuid e (Suc k) 0) (db_now e (Suc k))
               (cart_id cart) (product_id product) quantity) d1")
      have "r2 = Resolved (Data ())" and "db' = d2"
        using assms c1 Resolved Error c2
        by (cases r2; simp add: put_in_cart_def split: response.splits)+
      with insert_cart_item_request(1) [OF c2] d1
      show ?thesis by simp
    qed
  qed
qed

lemma put_in_cart_Some:
  assumes "put_in_cart e uid k cart product quantity db = (db', Some x)"
  shows "db' = db"
proof -
  obtain d1 r1 where c1:
    "request (net e k) (select_cart_item (Some uid) (cart_id cart) (product_id product)) db = (d1, r1)"
    by (cases "request (net e k) (select_cart_item (Some uid) (cart_id cart) (product_id product)) db")
  have d1: "d1 = db" using select_cart_item_request(1) [OF c1] .
  show ?thesis
  proof (cases r1)
    case Throws
    with assms c1 d1 show ?thesis by (simp add: put_in_cart_def)
  next
    case (Resolved y)
    show ?thesis
    proof (cases y)
      case (Data i)
      obtain d2 r2 where c2:
        "request (net e (Suc k)) (update_cart_item_quantity (Some uid) (ci_id i)
            (ci_quantity i + quantity)) d1 = (d2, r2)"
        by (cases "request (net e (Suc k)) (update_cart_item_quantity (Some uid) (ci_id i)
            (ci_quantity i + quantity)) d1")
      have "(\<forall>u. r2 \<noteq> Resolved (Data u))" and "db' = d2"
        using assms c1 Resolved Data c2
        by (cases r2; simp add: put_in_cart_def split: response.splits)+
      with update_cart_item_quantity_request(2) [OF c2] d1 show ?thesis by simp
    next
      case (Error err)
      obtain d2 r2 where c2:
        "request (net e (Suc k))
            (insert_cart_item (Some uid) (gen_random_uuid e (Suc k) 0) (db_now e (Suc k))
               (cart_id cart) (product_id product) quantity) d1 = (d2, r2)"
        by (cases "request (net e (Suc k))
            (insert_cart_item (Some uid) (gen_random_uuid e (Suc k) 0) (db_now e (Suc k))
               (cart_id cart) (product_id product) quantity) d1")
      have "(\<forall>u. r2 \<noteq> Resolved (Data u))" and "db' = d2"
        using assms c1 Resolved Error c2
        by (cases r2; simp add: put_in_cart_def split: response.splits)+
      with insert_cart_item_request(2) [OF c2] d1 show ?thesis by simp
    qed
  qed
qed


lemma put_in_cart_unique:
  assumes "put_in_cart e uid k cart product quantity db = (db', r)"
    and "cart_product_unique db"
  shows "cart_product_unique db'"
proof (cases r)
  case (Some x)
  with assms put_in_cart_Some show ?thesis by blast
next
  case None
  from put_in_cart_None [OF assms(1) [unfolded None]] show ?thesis
  proof (elim disjE exE conjE)
    fix i
    assume "db' = db\<lparr>cart_items :=
                     map (\<lambda>j. if ci_id j = ci_id i \<and> policy_cart_items db (Some uid) j
                               then j\<lparr>ci_quantity := ci_quantity i + quantity\<rparr> else j)
                       (cart_items db)\<rparr>"
    then have "map (\<lambda>i. (ci_cart_id i, ci_product_id i)) (cart_items db')
        = map (\<lambda>i. (ci_cart_id i, ci_product_id i)) (cart_items db)"
      by (simp add: comp_def if_distrib cong: if_cong)
    with assms(2) show ?thesis by (simp add: cart_product_unique_def)
  next
    assume "db' = db\<lparr>cart_items := cart_items db
                  @ [\<lparr>ci_id = gen_random_uuid e (Suc k) 0, ci_cart_id = cart_id cart,
                      ci_product_id = product_id product, ci_quantity = quantity,
                      ci_created_at = Some (db_now e (Suc k))\<rparr>]\<rparr>"
      and "(cart_id cart, product_id product)
                  \<notin> set (map (\<lambda>i. (ci_cart_id i, ci_product_id i)) (cart_items db))"
    with assms(2) show ?thesis by (simp add: cart_product_unique_def)
  qed
qed

lemma addToCart_unique:
  assumes "cart_product_unique db"
  shows "cart_product_unique (fst (addToCart e usr product quantity db))"
proof (cases usr)
  case None
  with assms show ?thesis by (simp add: addToCart_def)
next
  case (Some uid)
  show ?thesis
  proof (cases product)
    case None
    with Some assms show ?thesis by (simp add: addToCart_def)
  next
    case (Some p)
    obtain db1 k r where g: "get_or_create_cart e uid db = (db1, k, r)"
      by (cases "get_or_create_cart e uid db")
    have u1: "cart_product_unique db1"
      using get_or_create_cart_cart_items [OF g] assms by (simp add: cart_product_unique_def)
    show ?thesis
    proof (cases r)
      case (Inl x)
      with g u1 Some \<open>usr = Some uid\<close> show ?thesis by (simp add: addToCart_def)
    next
      case (Inr cart)
      obtain db2 r2 where q: "put_in_cart e uid k cart p quantity db1 = (db2, r2)"
        by (cases "put_in_cart e uid k cart p quantity db1")
      have "fst (addToCart e usr product quantity db) = db2"
        using g Inr q Some \<open>usr = Some uid\<close> by (cases r2) (simp_all add: addToCart_def)
      with put_in_cart_unique [OF q u1] show ?thesis by simp
    qed
  qed
qed

lemma addToCart_success:
  assumes "addToCart e (Some uid) (Some p) quantity db = (db', toast_success txt)"
  obtains db1 k cart where "get_or_create_cart e uid db = (db1, k, Inr cart)"
    and "put_in_cart e uid k cart p quantity db1 = (db', None)"
proof -
  obtain db1 k r where g: "get_or_create_cart e uid db = (db1, k, r)"
    by (cases "get_or_create_cart e uid db")
  show thesis
  proof (cases r)
    case (Inl x)
    with g assms show ?thesis by (simp add: addToCart_def)
  next
    case (Inr cart)
    obtain db2 r2 where q: "put_in_cart e uid k cart p quantity db1 = (db2, r2)"
      by (cases "put_in_cart e uid k cart p quantity db1")
    have "r2 = None \<and> db2 = db'"
      using g Inr q assms by (cases r2) (simp_all add: addToCart_def)
    with g Inr q that show ?thesis by simp
  qed
qed


lemma addToCart_existing:
  assumes keys: "distinct (map ci_id (cart_items db))"
    and ok: "addToCart e (Some uid) (Some p) quantity db = (db', toast_success txt)"
    and i: "i \<in> set (cart_items db)" "ci_product_id i = product_id p"
      "policy_cart_items db (Some uid) i"
  shows "cart_items db' =
      map (\<lambda>j. if j = i then i\<lparr>ci_quantity := ci_quantity i + quantity\<rparr> else j) (cart_items db)"
proof -
  from ok obtain db1 k cart where g: "get_or_create_cart e uid db = (db1, k, Inr cart)"
    and q: "put_in_cart e uid k cart p quantity db1 = (db', None)"
    by (rule addToCart_success)
  from i(3) obtain c where c: "c \<in> set (carts db)" "cart_id c = ci_cart_id i" "cart_user_id c = uid"
    by (auto simp: policy_cart_items_def)
  then have has: "uid \<in> set (map cart_user_id (carts db))" by auto
  from get_or_create_cart_Inr [OF g] has
  have db1: "db1 = db"
    and one: "filter (\<lambda>c. cart_user_id c = uid \<and> policy_carts (Some uid) c) (carts db) = [cart]"
    by auto
  have "c \<in> set (filter (\<lambda>c. cart_user_id c = uid \<and> policy_carts (Some uid) c) (carts db))"
    using c by (simp add: policy_carts_def)
  then have "c = cart" unfolding one by simp
  with c have cart: "ci_cart_id i = cart_id cart" by simp
  have key: "(cart_id cart, product_id p)
      \<in> set (map (\<lambda>i. (ci_cart_id i, ci_product_id i)) (cart_items db))"
    using i(1,2) cart by (auto intro!: image_eqI [where x = i])
  from put_in_cart_None [OF q [unfolded db1]] key
  obtain i' where sel: "filter (\<lambda>i. ci_cart_id i = cart_id cart \<and> ci_product_id i = product_id p
                             \<and> policy_cart_items db (Some uid) i) (cart_items db) = [i']"
    and res: "db' = db\<lparr>cart_items :=
                     map (\<lambda>j. if ci_id j = ci_id i' \<and> policy_cart_items db (Some uid) j
                               then j\<lparr>ci_quantity := ci_quantity i' + quantity\<rparr> else j)
                       (cart_items db)\<rparr>"
    by auto
  have "i \<in> set (filter (\<lambda>i. ci_cart_id i = cart_id cart \<and> ci_product_id i = product_id p
                             \<and> policy_cart_items db (Some uid) i) (cart_items db))"
    using i cart by simp
  then have same: "i' = i" unfolding sel by simp
  have inj: "inj_on ci_id (set (cart_items db))"
    using keys by (simp add: distinct_map)
  have eq: "map (\<lambda>j. if ci_id j = ci_id i \<and> policy_cart_items db (Some uid) j
                  then j\<lparr>ci_quantity := ci_quantity i + quantity\<rparr> else j) (cart_items db)
      = map (\<lambda>j. if j = i then i\<lparr>ci_quantity := ci_quantity i + quantity\<rparr> else j) (cart_items db)"
  proof (rule map_cong [OF refl])
    fix j assume j: "j \<in> set (cart_items db)"
    have "ci_id j = ci_id i \<longleftrightarrow> j = i"
      using inj j i(1) by (auto dest: inj_onD)
    then show "(if ci_id j = ci_id i \<and> policy_cart_items db (Some uid) j
                  then j\<lparr>ci_quantity := ci_quantity i + quantity\<rparr> else j)
        = (if j = i then i\<lparr>ci_quantity := ci_quantity i + quantity\<rparr> else j)"
      using i(3) by auto
  qed
  have "cart_items db' =
      map (\<lambda>j. if ci_id j = ci_id i \<and> policy_cart_items db (Some uid) j
                then j\<lparr>ci_quantity := ci_quantity i + quantity\<rparr> else j) (cart_items db)"
    using res same by simp
  then show ?thesis by (simp only: eq)
qed

lemma addToCart_absent:
  assumes fk: "cart_items_refer db"
    and ok: "addToCart e (Some uid) (Some p) quantity db = (db', toast_success txt)"
    and none: "\<forall>i \<in> set (cart_items db).
        \<not> (ci_product_id i = product_id p \<and> policy_cart_items db (Some uid) i)"
  shows "\<exists>row. cart_items db' = cart_items db @ [row] \<and> ci_quantity row = quantity
      \<and> ci_product_id row = product_id p \<and> policy_cart_items db' (Some uid) row"
proof -
  from ok obtain db1 k cart where g: "get_or_create_cart e uid db = (db1, k, Inr cart)"
    and q: "put_in_cart e uid k cart p quantity db1 = (db', None)"
    by (rule addToCart_success)
  have items1: "cart_items db1 = cart_items db"
    using get_or_create_cart_cart_items [OF g] .
  have no_line: False
    if sel: "filter (\<lambda>i. ci_cart_id i = cart_id cart \<and> ci_product_id i = product_id p
                             \<and> policy_cart_items db1 (Some uid) i) (cart_items db1) = [i']" for i'
  proof -
    have "i' \<in> set (filter (\<lambda>i. ci_cart_id i = cart_id cart \<and> ci_product_id i = product_id p
                             \<and> policy_cart_items db1 (Some uid) i) (cart_items db1))"
      unfolding sel by simp
    then have i': "i' \<in> set (cart_items db)" "ci_cart_id i' = cart_id cart"
      "ci_product_id i' = product_id p" "policy_cart_items db1 (Some uid) i'"
      using items1 by simp_all
    have refers: "ci_cart_id i' \<in> set (map cart_id (carts db))"
      using fk i'(1) by (simp add: cart_items_refer_def)
    from get_or_create_cart_Inr [OF g] have "policy_cart_items db (Some uid) i'"
    proof
      assume "db1 = db \<and> filter (\<lambda>c. cart_user_id c = uid \<and> policy_carts (Some uid) c) (carts db) = [cart]"
      with i'(4) show ?thesis by simp
    next
      assume "db1 = db\<lparr>carts := carts db @ [cart]\<rparr> \<and> cart_user_id cart = uid
             \<and> cart_id cart \<notin> set (map cart_id (carts db))
             \<and> uid \<notin> set (map cart_user_id (carts db))"
      with refers i'(2) show ?thesis by simp
    qed
    with none i'(1,3) show False by blast
  qed
  from put_in_cart_None [OF q] no_line
  have res: "db' = db1\<lparr>cart_items := cart_items db1
                  @ [\<lparr>ci_id = gen_random_uuid e (Suc k) 0, ci_cart_id = cart_id cart,
                      ci_product_id = product_id p, ci_quantity = quantity,
                      ci_created_at = Some (db_now e (Suc k))\<rparr>]\<rparr>"
    and pol: "policy_cart_items db1 (Some uid)
                  \<lparr>ci_id = gen_random_uuid e (Suc k) 0, ci_cart_id = cart_id cart,
                   ci_product_id = product_id p, ci_quantity = quantity,
                   ci_created_at = Some (db_now e (Suc k))\<rparr>"
    by blast+
  have "policy_cart_items db' (Some uid)
                  \<lparr>ci_id = gen_random_uuid e (Suc k) 0, ci_cart_id = cart_id cart,
                   ci_product_id = product_id p, ci_quantity = quantity,
                   ci_created_at = Some (db_now e (Suc k))\<rparr>"
    using pol by (subst res) (simp add: policy_cart_items_def)
  with res items1 show ?thesis by simp
qed


lemma shop_constraints: "keys_hold shop" "cart_items_refer shop" "cart_product_unique shop"
  by (simp_all add: keys_hold_def cart_items_refer_def cart_product_unique_def shop_tables
      product_fields)

lemma string_of_nat_Suc_values:
  "string_of_nat (Suc (Suc 0)) = ''2''" "string_of_nat (Suc (Suc (Suc 0))) = ''3''"
  using string_of_nat_values(4,5) unfolding numeral_2_eq_2 numeral_3_eq_3 by simp_all

lemmas addToCart_defs = addToCart_def get_or_create_cart_def put_in_cart_def

lemma customer_adds_paracetamol:
  "addToCart calm (Some ''customer'') (Some paracetamol) 3 shop =
     (shop\<lparr>cart_items :=
          [\<lparr>ci_id = ''i1'', ci_cart_id = ''cart1'', ci_product_id = ''p1'', ci_quantity = 5,
            ci_created_at = Some 3000\<rparr>,
           \<lparr>ci_id = ''i2'', ci_cart_id = ''cart2'', ci_product_id = ''p1'', ci_quantity = 2,
            ci_created_at = Some 3000\<rparr>,
           \<lparr>ci_id = ''i3'', ci_cart_id = ''cart2'', ci_product_id = ''p2'', ci_quantity = 1,
            ci_created_at = Some 3000\<rparr>]\<rparr>,
      toast_success ''Produk ditambahkan ke keranjang'')"
  by (simp add: addToCart_defs statement_defs shop_tables product_fields calm_fields)

lemma customer_adds_tolak_angin:
  "addToCart calm (Some ''customer'') (Some tolak_angin) 3 shop =
     (shop\<lparr>cart_items := cart_items shop
          @ [\<lparr>ci_id = ''n2.0'', ci_cart_id = ''cart1'', ci_product_id = ''p2'', ci_quantity = 3,
              ci_created_at = Some 5002\<rparr>]\<rparr>,
      toast_success ''Produk ditambahkan ke keranjang'')"
  by (simp add: addToCart_defs statement_defs shop_tables product_fields calm_fields
      string_of_nat_values string_of_nat_Suc_values)

lemma filter_key_single:
  "distinct (map f xs) \<Longrightarrow> x \<in> set xs \<Longrightarrow> filter (\<lambda>y. f y = f x) xs = [x]"
proof (induction xs)
  case Nil
  then show ?case by simp
next
  case (Cons a xs)
  show ?case
  proof (cases "a = x")
    case True
    have "f x \<notin> f ` set xs" using Cons.prems(1) True by simp
    then have "\<forall>y \<in> set xs. f y \<noteq> f x" by (metis imageI)
    then have "filter (\<lambda>y. f y = f x) xs = []"
      by (simp add: filter_empty_conv)
    with True show ?thesis by simp
  next
    case False
    with Cons.prems have in_xs: "x \<in> set xs" by simp
    then have "f a \<noteq> f x" using Cons.prems(1) by auto
    with Cons.IH in_xs Cons.prems(1) show ?thesis by simp
  qed
qed

text \<open>The user's cart is found when the request is delivered.\<close>

lemma get_or_create_cart_found:
  assumes "distinct (map cart_user_id (carts db))" and "c \<in> set (carts db)"
    and "cart_user_id c = uid" and "net e 0 = Delivered"
  shows "get_or_create_cart e uid db = (db, 1, Inr c)"
proof -
  have "filter (\<lambda>c'. cart_user_id c' = uid \<and> policy_carts (Some uid) c') (carts db)
      = filter (\<lambda>c'. cart_user_id c' = cart_user_id c) (carts db)"
    using assms(3) by (intro filter_cong refl) (auto simp: policy_carts_def)
  also have "\<dots> = [c]" using filter_key_single [OF assms(1,2)] .
  finally have "select_cart (Some uid) uid db = Inr (db, c)"
    by (simp add: select_cart_def single_def)
  then show ?thesis
    using assms(4) by (simp add: get_or_create_cart_def request_def)
qed

text \<open>A user without a cart gets one, when both requests are delivered and the new id is free.\<close>

lemma get_or_create_cart_created:
  assumes "uid \<notin> set (map cart_user_id (carts db))"
    and "gen_random_uuid e 1 0 \<notin> set (map cart_id (carts db))"
    and "net e 0 = Delivered" and "net e 1 = Delivered"
  shows "get_or_create_cart e uid db =
      (db\<lparr>carts := carts db @ [\<lparr>cart_id = gen_random_uuid e 1 0, cart_user_id = uid,
                                  cart_created_at = Some (db_now e 1),
                                  cart_updated_at = Some (db_now e 1)\<rparr>]\<rparr>, 2,
       Inr \<lparr>cart_id = gen_random_uuid e 1 0, cart_user_id = uid,
            cart_created_at = Some (db_now e 1), cart_updated_at = Some (db_now e 1)\<rparr>)"
proof -
  have "filter (\<lambda>c'. cart_user_id c' = uid \<and> policy_carts (Some uid) c') (carts db) = []"
    using assms(1) by (auto simp: filter_empty_conv)
  then have none: "select_cart (Some uid) uid db = Inl not_single_row"
    by (simp add: select_cart_def single_def)
  have made: "insert_cart (Some uid) (gen_random_uuid e 1 0) (db_now e 1) uid db =
      Inr (db\<lparr>carts := carts db @ [\<lparr>cart_id = gen_random_uuid e 1 0, cart_user_id = uid,
                                  cart_created_at = Some (db_now e 1),
                                  cart_updated_at = Some (db_now e 1)\<rparr>]\<rparr>,
           \<lparr>cart_id = gen_random_uuid e 1 0, cart_user_id = uid,
            cart_created_at = Some (db_now e 1), cart_updated_at = Some (db_now e 1)\<rparr>)"
    using assms(1,2) by (simp add: insert_cart_def Let_def policy_carts_def)
  show ?thesis
    using assms(3,4) none made by (simp add: get_or_create_cart_def request_def)
qed

text \<open>The item of the cart is found and gets the sum, when both requests are delivered.\<close>

lemma put_in_cart_existing:
  assumes "cart_product_unique db" and "c \<in> set (carts db)" and "cart_user_id c = uid"
    and "i \<in> set (cart_items db)" and "ci_cart_id i = cart_id c" and "ci_product_id i = product_id p"
    and "fits_integer (ci_quantity i + quantity)"
    and "net e k = Delivered" and "net e (Suc k) = Delivered"
  shows "put_in_cart e uid k c p quantity db =
      (db\<lparr>cart_items :=
           map (\<lambda>j. if ci_id j = ci_id i \<and> policy_cart_items db (Some uid) j
                     then j\<lparr>ci_quantity := ci_quantity i + quantity\<rparr> else j) (cart_items db)\<rparr>, None)"
proof -
  have "filter (\<lambda>j. ci_cart_id j = cart_id c \<and> ci_product_id j = product_id p
                    \<and> policy_cart_items db (Some uid) j) (cart_items db)
      = filter (\<lambda>j. (ci_cart_id j, ci_product_id j) = (ci_cart_id i, ci_product_id i)) (cart_items db)"
    using assms(2,3,5,6) by (intro filter_cong refl) (auto simp: policy_cart_items_def)
  also have "\<dots> = [i]"
    using filter_key_single [of "\<lambda>i. (ci_cart_id i, ci_product_id i)" "cart_items db" i] assms(1,4)
    by (simp add: cart_product_unique_def)
  finally have found: "select_cart_item (Some uid) (cart_id c) (product_id p) db = Inr (db, i)"
    by (simp add: select_cart_item_def single_def)
  show ?thesis
    using assms(7,8,9) found
    by (simp add: put_in_cart_def request_def update_cart_item_quantity_def)
qed

text \<open>No item of the cart for the product: one row is inserted, when both requests are delivered.\<close>

lemma put_in_cart_absent:
  assumes "c \<in> set (carts db)" and "cart_user_id c = uid"
    and "\<forall>j \<in> set (cart_items db). \<not> (ci_cart_id j = cart_id c \<and> ci_product_id j = product_id p)"
    and "fits_integer quantity"
    and "gen_random_uuid e (Suc k) 0 \<notin> set (map ci_id (cart_items db))"
    and "product_id p \<in> set (map product_id (products db))"
    and "net e k = Delivered" and "net e (Suc k) = Delivered"
  shows "put_in_cart e uid k c p quantity db =
      (db\<lparr>cart_items := cart_items db
            @ [\<lparr>ci_id = gen_random_uuid e (Suc k) 0, ci_cart_id = cart_id c,
                ci_product_id = product_id p, ci_quantity = quantity,
                ci_created_at = Some (db_now e (Suc k))\<rparr>]\<rparr>, None)"
proof -
  have "filter (\<lambda>j. ci_cart_id j = cart_id c \<and> ci_product_id j = product_id p
                    \<and> policy_cart_items db (Some uid) j) (cart_items db) = []"
    using assms(3) by (auto simp: filter_empty_conv)
  then have none: "select_cart_item (Some uid) (cart_id c) (product_id p) db = Inl not_single_row"
    by (simp add: select_cart_item_def single_def)
  have key: "(cart_id c, product_id p)
      \<notin> set (map (\<lambda>i. (ci_cart_id i, ci_product_id i)) (cart_items db))"
    using assms(3) by auto
  have cart: "cart_id c \<in> set (map cart_id (carts db))" using assms(1) by simp
  have pol: "policy_cart_items db (Some uid)
      \<lparr>ci_id = gen_random_uuid e (Suc k) 0, ci_cart_id = cart_id c,
       ci_product_id = product_id p, ci_quantity = quantity,
       ci_created_at = Some (db_now e (Suc k))\<rparr>"
    using assms(1,2) by (auto simp: policy_cart_items_def)
  have made: "insert_cart_item (Some uid) (gen_random_uuid e (Suc k) 0) (db_now e (Suc k))
      (cart_id c) (product_id p) quantity db =
      Inr (db\<lparr>cart_items := cart_items db
            @ [\<lparr>ci_id = gen_random_uuid e (Suc k) 0, ci_cart_id = cart_id c,
                ci_product_id = product_id p, ci_quantity = quantity,
                ci_created_at = Some (db_now e (Suc k))\<rparr>]\<rparr>, ())"
    unfolding insert_cart_item_def Let_def
    using assms(4,5,6) key cart pol by simp
  show ?thesis
    using assms(7,8) none made by (simp add: put_in_cart_def request_def)
qed


text \<open>
  C9. \<^verbatim>\<open>addToCart\<close> keeps \<^verbatim>\<open>UNIQUE(cart_id, product_id)\<close> on cart_items, whatever happens to
  its requests. With its requests delivered, on a database whose keys hold:
  if the user's cart holds an item for the product, the handler reports success, that
  item's quantity is the old quantity plus the requested one and nothing else has
  changed, no row added;
  if the user has a cart without such an item, the handler reports success and exactly one
  row is appended to cart_items, for the product, in that cart, with the requested
  quantity;
  if the user has no cart, the handler reports success, one cart is appended to carts for
  the user and one row to cart_items as before.
  (The sum and the quantity fit the INTEGER column, the product exists and the generated
  ids are not in use.) And whenever the handler reports success, whatever its requests
  met, the item of the user's cart was updated so, or the one row was appended.
\<close>

theorem addToCart_adds_to_line_or_inserts_one:
  "(cart_product_unique db \<longrightarrow> cart_product_unique (fst (addToCart e usr product quantity db)))
   \<and> (keys_hold db \<and> c \<in> set (carts db) \<and> cart_user_id c = uid
      \<and> i \<in> set (cart_items db) \<and> ci_cart_id i = cart_id c \<and> ci_product_id i = product_id p
      \<and> fits_integer (ci_quantity i + quantity)
      \<and> net e 0 = Delivered \<and> net e 1 = Delivered \<and> net e 2 = Delivered \<longrightarrow>
        addToCart e (Some uid) (Some p) quantity db =
          (db\<lparr>cart_items :=
               map (\<lambda>j. if j = i then i\<lparr>ci_quantity := ci_quantity i + quantity\<rparr> else j)
                 (cart_items db)\<rparr>,
           toast_success ''Produk ditambahkan ke keranjang''))
   \<and> (keys_hold db \<and> c \<in> set (carts db) \<and> cart_user_id c = uid
      \<and> (\<forall>j \<in> set (cart_items db). \<not> (ci_cart_id j = cart_id c \<and> ci_product_id j = product_id p))
      \<and> fits_integer quantity
      \<and> gen_random_uuid e 2 0 \<notin> set (map ci_id (cart_items db))
      \<and> product_id p \<in> set (map product_id (products db))
      \<and> net e 0 = Delivered \<and> net e 1 = Delivered \<and> net e 2 = Delivered \<longrightarrow>
        addToCart e (Some uid) (Some p) quantity db =
          (db\<lparr>cart_items := cart_items db
                @ [\<lparr>ci_id = gen_random_uuid e 2 0, ci_cart_id = cart_id c,
                    ci_product_id = product_id p, ci_quantity = quantity,
                    ci_created_at = Some (db_now e 2)\<rparr>]\<rparr>,
           toast_success ''Produk ditambahkan ke keranjang''))
   \<and> (cart_items_refer db \<and> uid \<notin> set (map cart_user_id (carts db))
      \<and> gen_random_uuid e 1 0 \<notin> set (map cart_id (carts db))
      \<and> fits_integer quantity
      \<and> gen_random_uuid e 3 0 \<notin> set (map ci_id (cart_items db))
      \<and> product_id p \<in> set (map product_id (products db))
      \<and> net e 0 = Delivered \<and> net e 1 = Delivered \<and> net e 2 = Delivered
      \<and> net e 3 = Delivered \<longrightarrow>
        addToCart e (Some uid) (Some p) quantity db =
          (db\<lparr>carts := carts db
                @ [\<lparr>cart_id = gen_random_uuid e 1 0, cart_user_id = uid,
                    cart_created_at = Some (db_now e 1), cart_updated_at = Some (db_now e 1)\<rparr>],
              cart_items := cart_items db
                @ [\<lparr>ci_id = gen_random_uuid e 3 0, ci_cart_id = gen_random_uuid e 1 0,
                    ci_product_id = product_id p, ci_quantity = quantity,
                    ci_created_at = Some (db_now e 3)\<rparr>]\<rparr>,
           toast_success ''Produk ditambahkan ke keranjang''))
   \<and> (keys_hold db \<and> cart_items_refer db
      \<and> addToCart e (Some uid) (Some p) quantity db
           = (db', toast_success ''Produk ditambahkan ke keranjang'') \<longrightarrow>
        (\<forall>i \<in> set (cart_items db).
            ci_product_id i = product_id p \<and> policy_cart_items db (Some uid) i \<longrightarrow>
            cart_items db' =
              map (\<lambda>j. if j = i then i\<lparr>ci_quantity := ci_quantity i + quantity\<rparr> else j)
                (cart_items db))
        \<and> ((\<forall>i \<in> set (cart_items db).
               \<not> (ci_product_id i = product_id p \<and> policy_cart_items db (Some uid) i)) \<longrightarrow>
            (\<exists>row. cart_items db' = cart_items db @ [row] \<and> ci_quantity row = quantity
               \<and> ci_product_id row = product_id p \<and> policy_cart_items db' (Some uid) row)))"
proof -
  have inv: "cart_product_unique (fst (addToCart e usr product quantity db))"
    if "cart_product_unique db"
    using that by (rule addToCart_unique)
  have upd: "addToCart e (Some uid) (Some p) quantity db =
          (db\<lparr>cart_items :=
               map (\<lambda>j. if j = i then i\<lparr>ci_quantity := ci_quantity i + quantity\<rparr> else j)
                 (cart_items db)\<rparr>,
           toast_success ''Produk ditambahkan ke keranjang'')"
    if keys: "keys_hold db" and c: "c \<in> set (carts db)" "cart_user_id c = uid"
      and i: "i \<in> set (cart_items db)" "ci_cart_id i = cart_id c" "ci_product_id i = product_id p"
      and fits: "fits_integer (ci_quantity i + quantity)"
      and net: "net e 0 = Delivered" "net e 1 = Delivered" "net e 2 = Delivered"
  proof -
    have k: "distinct (map cart_user_id (carts db))" "cart_product_unique db"
      "distinct (map ci_id (cart_items db))"
      using keys by (simp_all add: keys_hold_def)
    have cart: "get_or_create_cart e uid db = (db, 1, Inr c)"
      using get_or_create_cart_found [OF k(1) c net(1)] .
    have net2: "net e (Suc 1) = Delivered" unfolding Suc_1 by (rule net(3))
    let ?m = "map (\<lambda>j. if ci_id j = ci_id i \<and> policy_cart_items db (Some uid) j
                     then j\<lparr>ci_quantity := ci_quantity i + quantity\<rparr> else j) (cart_items db)"
    have put: "put_in_cart e uid 1 c p quantity db = (db\<lparr>cart_items := ?m\<rparr>, None)"
      using put_in_cart_existing [OF k(2) c i fits net(2) net2] .
    have run: "addToCart e (Some uid) (Some p) quantity db =
        (db\<lparr>cart_items := ?m\<rparr>, toast_success ''Produk ditambahkan ke keranjang'')"
      using put by (simp add: addToCart_def cart)
    have pol: "policy_cart_items db (Some uid) i"
      using c i(2) by (auto simp: policy_cart_items_def)
    have "cart_items (db\<lparr>cart_items := ?m\<rparr>) =
        map (\<lambda>j. if j = i then i\<lparr>ci_quantity := ci_quantity i + quantity\<rparr> else j) (cart_items db)"
      using addToCart_existing [OF k(3) run i(1,3) pol] .
    then have "?m = map (\<lambda>j. if j = i then i\<lparr>ci_quantity := ci_quantity i + quantity\<rparr> else j)
        (cart_items db)"
      by simp
    with run show ?thesis by simp
  qed
  have ins: "addToCart e (Some uid) (Some p) quantity db =
          (db\<lparr>cart_items := cart_items db
                @ [\<lparr>ci_id = gen_random_uuid e 2 0, ci_cart_id = cart_id c,
                    ci_product_id = product_id p, ci_quantity = quantity,
                    ci_created_at = Some (db_now e 2)\<rparr>]\<rparr>,
           toast_success ''Produk ditambahkan ke keranjang'')"
    if keys: "keys_hold db" and c: "c \<in> set (carts db)" "cart_user_id c = uid"
      and none: "\<forall>j \<in> set (cart_items db). \<not> (ci_cart_id j = cart_id c \<and> ci_product_id j = product_id p)"
      and fits: "fits_integer quantity"
      and fresh: "gen_random_uuid e 2 0 \<notin> set (map ci_id (cart_items db))"
      and prod: "product_id p \<in> set (map product_id (products db))"
      and net: "net e 0 = Delivered" "net e 1 = Delivered" "net e 2 = Delivered"
  proof -
    have k: "distinct (map cart_user_id (carts db))"
      using keys by (simp add: keys_hold_def)
    have cart: "get_or_create_cart e uid db = (db, 1, Inr c)"
      using get_or_create_cart_found [OF k c net(1)] .
    have net2: "net e (Suc 1) = Delivered" unfolding Suc_1 by (rule net(3))
    have fresh2: "gen_random_uuid e (Suc 1) 0 \<notin> set (map ci_id (cart_items db))"
      unfolding Suc_1 by (rule fresh)
    have put: "put_in_cart e uid 1 c p quantity db =
        (db\<lparr>cart_items := cart_items db
            @ [\<lparr>ci_id = gen_random_uuid e (Suc 1) 0, ci_cart_id = cart_id c,
                ci_product_id = product_id p, ci_quantity = quantity,
                ci_created_at = Some (db_now e (Suc 1))\<rparr>]\<rparr>, None)"
      using put_in_cart_absent [OF c none fits fresh2 prod net(2) net2] .
    show ?thesis
      using put unfolding Suc_1 by (simp add: addToCart_def cart)
  qed
  have first: "addToCart e (Some uid) (Some p) quantity db =
          (db\<lparr>carts := carts db
                @ [\<lparr>cart_id = gen_random_uuid e 1 0, cart_user_id = uid,
                    cart_created_at = Some (db_now e 1), cart_updated_at = Some (db_now e 1)\<rparr>],
              cart_items := cart_items db
                @ [\<lparr>ci_id = gen_random_uuid e 3 0, ci_cart_id = gen_random_uuid e 1 0,
                    ci_product_id = product_id p, ci_quantity = quantity,
                    ci_created_at = Some (db_now e 3)\<rparr>]\<rparr>,
           toast_success ''Produk ditambahkan ke keranjang'')"
    if fk: "cart_items_refer db" and nocart: "uid \<notin> set (map cart_user_id (carts db))"
      and freshc: "gen_random_uuid e 1 0 \<notin> set (map cart_id (carts db))"
      and fits: "fits_integer quantity"
      and fresh: "gen_random_uuid e 3 0 \<notin> set (map ci_id (cart_items db))"
      and prod: "product_id p \<in> set (map product_id (products db))"
      and net: "net e 0 = Delivered" "net e 1 = Delivered" "net e 2 = Delivered"
        "net e 3 = Delivered"
  proof -
    let ?c = "\<lparr>cart_id = gen_random_uuid e 1 0, cart_user_id = uid,
              cart_created_at = Some (db_now e 1), cart_updated_at = Some (db_now e 1)\<rparr>"
    let ?db1 = "db\<lparr>carts := carts db @ [?c]\<rparr>"
    have cart: "get_or_create_cart e uid db = (?db1, 2, Inr ?c)"
      using get_or_create_cart_created [OF nocart freshc net(1,2)] .
    have c1: "?c \<in> set (carts ?db1)" "cart_user_id ?c = uid" by simp_all
    have none: "\<forall>j \<in> set (cart_items ?db1).
        \<not> (ci_cart_id j = cart_id ?c \<and> ci_product_id j = product_id p)"
    proof
      fix j assume j: "j \<in> set (cart_items ?db1)"
      then have "ci_cart_id j \<in> set (map cart_id (carts db))"
        using fk by (simp add: cart_items_refer_def)
      with freshc have "ci_cart_id j \<noteq> gen_random_uuid e 1 0" by metis
      then show "\<not> (ci_cart_id j = cart_id ?c \<and> ci_product_id j = product_id p)" by simp
    qed
    have three: "Suc 2 = 3" by simp
    have net3: "net e (Suc 2) = Delivered" unfolding three by (rule net(4))
    have fresh3: "gen_random_uuid e (Suc 2) 0 \<notin> set (map ci_id (cart_items ?db1))"
      unfolding three using fresh by simp
    have prod1: "product_id p \<in> set (map product_id (products ?db1))"
      using prod by simp
    have put: "put_in_cart e uid 2 ?c p quantity ?db1 =
        (?db1\<lparr>cart_items := cart_items ?db1
            @ [\<lparr>ci_id = gen_random_uuid e (Suc 2) 0, ci_cart_id = cart_id ?c,
                ci_product_id = product_id p, ci_quantity = quantity,
                ci_created_at = Some (db_now e (Suc 2))\<rparr>]\<rparr>, None)"
      using put_in_cart_absent [OF c1 none fits fresh3 prod1 net(3) net3] .
    show ?thesis
      using put unfolding three by (simp add: addToCart_def cart)
  qed
  have told: "(\<forall>i \<in> set (cart_items db).
            ci_product_id i = product_id p \<and> policy_cart_items db (Some uid) i \<longrightarrow>
            cart_items db' =
              map (\<lambda>j. if j = i then i\<lparr>ci_quantity := ci_quantity i + quantity\<rparr> else j)
                (cart_items db))
        \<and> ((\<forall>i \<in> set (cart_items db).
               \<not> (ci_product_id i = product_id p \<and> policy_cart_items db (Some uid) i)) \<longrightarrow>
            (\<exists>row. cart_items db' = cart_items db @ [row] \<and> ci_quantity row = quantity
               \<and> ci_product_id row = product_id p \<and> policy_cart_items db' (Some uid) row))"
    if keys: "keys_hold db" and fk: "cart_items_refer db"
      and ok: "addToCart e (Some uid) (Some p) quantity db
           = (db', toast_success ''Produk ditambahkan ke keranjang'')"
  proof (intro conjI ballI impI)
    fix i assume "i \<in> set (cart_items db)"
      and "ci_product_id i = product_id p \<and> policy_cart_items db (Some uid) i"
    moreover have "distinct (map ci_id (cart_items db))" using keys by (simp add: keys_hold_def)
    ultimately show "cart_items db' =
        map (\<lambda>j. if j = i then i\<lparr>ci_quantity := ci_quantity i + quantity\<rparr> else j) (cart_items db)"
      using addToCart_existing [OF _ ok] by blast
  next
    assume "\<forall>i \<in> set (cart_items db).
        \<not> (ci_product_id i = product_id p \<and> policy_cart_items db (Some uid) i)"
    then show "\<exists>row. cart_items db' = cart_items db @ [row] \<and> ci_quantity row = quantity
        \<and> ci_product_id row = product_id p \<and> policy_cart_items db' (Some uid) row"
      by (rule addToCart_absent [OF fk ok])
  qed
  show ?thesis
  proof (intro conjI)
    show "cart_product_unique db \<longrightarrow> cart_product_unique (fst (addToCart e usr product quantity db))"
      using inv by blast
  qed (use upd ins first told in blast)+
qed


theorem addToCart_adds_to_line_or_inserts_one_witness:
  "cart_product_unique shop
   \<and> cart_product_unique (fst (addToCart calm (Some ''customer'') (Some paracetamol) 3 shop))
   \<and> keys_hold shop \<and> cart_items_refer shop
   \<and> hd (carts shop) \<in> set (carts shop) \<and> cart_user_id (hd (carts shop)) = ''customer''
   \<and> hd (cart_items shop) \<in> set (cart_items shop)
   \<and> ci_cart_id (hd (cart_items shop)) = cart_id (hd (carts shop))
   \<and> ci_product_id (hd (cart_items shop)) = product_id paracetamol
   \<and> addToCart calm (Some ''customer'') (Some paracetamol) 3 shop =
       (shop\<lparr>cart_items :=
           map (\<lambda>j. if j = hd (cart_items shop)
                     then (hd (cart_items shop))\<lparr>ci_quantity := ci_quantity (hd (cart_items shop)) + 3\<rparr>
                     else j) (cart_items shop)\<rparr>,
        toast_success ''Produk ditambahkan ke keranjang'')
   \<and> filter (\<lambda>j. ci_cart_id j = cart_id (hd (carts shop)) \<and> ci_product_id j = product_id tolak_angin)
       (cart_items shop) = []
   \<and> addToCart calm (Some ''customer'') (Some tolak_angin) 3 shop =
       (shop\<lparr>cart_items := cart_items shop
            @ [\<lparr>ci_id = gen_random_uuid calm 2 0, ci_cart_id = cart_id (hd (carts shop)),
                ci_product_id = product_id tolak_angin, ci_quantity = 3,
                ci_created_at = Some (db_now calm 2)\<rparr>]\<rparr>,
        toast_success ''Produk ditambahkan ke keranjang'')
   \<and> ''newcomer'' \<notin> set (map cart_user_id (carts shop))
   \<and> addToCart calm (Some ''newcomer'') (Some tolak_angin) 3 shop =
       (shop\<lparr>carts := carts shop
            @ [\<lparr>cart_id = gen_random_uuid calm 1 0, cart_user_id = ''newcomer'',
                cart_created_at = Some (db_now calm 1), cart_updated_at = Some (db_now calm 1)\<rparr>],
          cart_items := cart_items shop
            @ [\<lparr>ci_id = gen_random_uuid calm 3 0, ci_cart_id = gen_random_uuid calm 1 0,
                ci_product_id = product_id tolak_angin, ci_quantity = 3,
                ci_created_at = Some (db_now calm 3)\<rparr>]\<rparr>,
        toast_success ''Produk ditambahkan ke keranjang'')
   \<and> (\<exists>row. cart_items (fst (addToCart calm (Some ''customer'') (Some tolak_angin) 3 shop))
           = cart_items shop @ [row] \<and> ci_quantity row = 3
         \<and> ci_product_id row = product_id tolak_angin
         \<and> policy_cart_items (fst (addToCart calm (Some ''customer'') (Some tolak_angin) 3 shop))
              (Some ''customer'') row)"
proof -
  let ?c = "hd (carts shop)"
  let ?i = "hd (cart_items shop)"
  let ?new = "fst (addToCart calm (Some ''customer'') (Some tolak_angin) 3 shop)"
  note inst = addToCart_adds_to_line_or_inserts_one
  have net: "net calm 0 = Delivered" "net calm 1 = Delivered" "net calm 2 = Delivered"
    "net calm 3 = Delivered"
    by (simp_all add: calm_fields)
  have cart: "?c \<in> set (carts shop)" "cart_user_id ?c = ''customer''"
    by (simp_all add: shop_tables)
  have line: "?i \<in> set (cart_items shop)" "ci_cart_id ?i = cart_id ?c"
    "ci_product_id ?i = product_id paracetamol"
    by (simp_all add: shop_tables product_fields)
  have fits: "fits_integer (ci_quantity ?i + 3)" "fits_integer 3"
    by (simp_all add: shop_tables fits_integer_def)
  have absent: "filter (\<lambda>j. ci_cart_id j = cart_id ?c \<and> ci_product_id j = product_id tolak_angin)
       (cart_items shop) = []"
    by (simp add: shop_tables product_fields)
  then have none: "\<forall>j \<in> set (cart_items shop).
      \<not> (ci_cart_id j = cart_id ?c \<and> ci_product_id j = product_id tolak_angin)"
    by (simp add: filter_empty_conv)
  have fresh: "gen_random_uuid calm 2 0 \<notin> set (map ci_id (cart_items shop))"
    "gen_random_uuid calm 3 0 \<notin> set (map ci_id (cart_items shop))"
    "gen_random_uuid calm 1 0 \<notin> set (map cart_id (carts shop))"
    by (simp_all add: calm_fields shop_tables)
  have known: "product_id tolak_angin \<in> set (map product_id (products shop))"
    by (simp add: shop_tables product_fields)
  have stranger: "''newcomer'' \<notin> set (map cart_user_id (carts shop))"
    by (simp add: shop_tables)
  have inv: "cart_product_unique
      (fst (addToCart calm (Some ''customer'') (Some paracetamol) 3 shop))"
    using inst [where db = shop and e = calm and usr = "Some ''customer''"
        and product = "Some paracetamol" and quantity = 3, THEN conjunct1] shop_constraints(3)
    by blast
  have upd: "addToCart calm (Some ''customer'') (Some paracetamol) 3 shop =
       (shop\<lparr>cart_items :=
           map (\<lambda>j. if j = ?i then ?i\<lparr>ci_quantity := ci_quantity ?i + 3\<rparr> else j)
             (cart_items shop)\<rparr>,
        toast_success ''Produk ditambahkan ke keranjang'')"
    using inst [where db = shop and e = calm and uid = "''customer''" and p = paracetamol
        and quantity = 3 and c = ?c and i = ?i, THEN conjunct2, THEN conjunct1]
      shop_constraints(1) cart line fits(1) net(1,2,3)
    by blast
  have ins: "addToCart calm (Some ''customer'') (Some tolak_angin) 3 shop =
       (shop\<lparr>cart_items := cart_items shop
            @ [\<lparr>ci_id = gen_random_uuid calm 2 0, ci_cart_id = cart_id ?c,
                ci_product_id = product_id tolak_angin, ci_quantity = 3,
                ci_created_at = Some (db_now calm 2)\<rparr>]\<rparr>,
        toast_success ''Produk ditambahkan ke keranjang'')"
    using inst [where db = shop and e = calm and uid = "''customer''" and p = tolak_angin
        and quantity = 3 and c = ?c, THEN conjunct2, THEN conjunct2, THEN conjunct1]
      shop_constraints(1) cart none fits(2) fresh(1) known net(1,2,3)
    by blast
  have first: "addToCart calm (Some ''newcomer'') (Some tolak_angin) 3 shop =
       (shop\<lparr>carts := carts shop
            @ [\<lparr>cart_id = gen_random_uuid calm 1 0, cart_user_id = ''newcomer'',
                cart_created_at = Some (db_now calm 1), cart_updated_at = Some (db_now calm 1)\<rparr>],
          cart_items := cart_items shop
            @ [\<lparr>ci_id = gen_random_uuid calm 3 0, ci_cart_id = gen_random_uuid calm 1 0,
                ci_product_id = product_id tolak_angin, ci_quantity = 3,
                ci_created_at = Some (db_now calm 3)\<rparr>]\<rparr>,
        toast_success ''Produk ditambahkan ke keranjang'')"
    using inst [where db = shop and e = calm and uid = "''newcomer''" and p = tolak_angin
        and quantity = 3, THEN conjunct2, THEN conjunct2, THEN conjunct2, THEN conjunct1]
      shop_constraints(2) stranger fresh(3) fits(2) fresh(2) known net
    by blast
  have run2: "addToCart calm (Some ''customer'') (Some tolak_angin) 3 shop
      = (?new, toast_success ''Produk ditambahkan ke keranjang'')"
    by (simp only: ins fst_conv)
  have none_visible: "\<forall>i \<in> set (cart_items shop).
      \<not> (ci_product_id i = product_id tolak_angin \<and> policy_cart_items shop (Some ''customer'') i)"
    by (simp add: shop_tables product_fields policy_cart_items_def)
  have told: "\<exists>row. cart_items ?new = cart_items shop @ [row] \<and> ci_quantity row = 3
         \<and> ci_product_id row = product_id tolak_angin
         \<and> policy_cart_items ?new (Some ''customer'') row"
    using inst [where db = shop and e = calm and uid = "''customer''" and p = tolak_angin
        and quantity = 3 and db' = ?new, THEN conjunct2, THEN conjunct2, THEN conjunct2,
        THEN conjunct2]
      shop_constraints(1,2) run2 none_visible
    by blast
  show ?thesis
    by (intro conjI shop_constraints inv cart line upd absent ins stranger first told)
qed


section \<open>The catalogue search\<close>

lemma like_match_percent_only: "like_match ''%'' t"
  by (induction t) simp_all

lemma like_match_plain_then_percent:
  "\<forall>c \<in> set ps. c \<noteq> CHR ''%'' \<and> c \<noteq> CHR ''_'' \<and> c \<noteq> CHR 0x5C \<Longrightarrow>
     like_match (ps @ ''%'') t \<longleftrightarrow> prefix ps t"
proof (induction ps arbitrary: t)
  case Nil
  then show ?case using like_match_percent_only by simp
next
  case (Cons p ps)
  then show ?case by (cases t) auto
qed

lemma like_match_percent_first:
  "like_match (CHR ''%'' # ps) t \<longleftrightarrow> (\<exists>k \<le> length t. like_match ps (drop k t))"
proof (induction t)
  case Nil
  then show ?case by simp
next
  case (Cons c t)
  have "(\<exists>k \<le> length (c # t). like_match ps (drop k (c # t)))
      \<longleftrightarrow> like_match ps (c # t) \<or> (\<exists>k \<le> length t. like_match ps (drop k t))"
  proof
    assume "\<exists>k \<le> length (c # t). like_match ps (drop k (c # t))"
    then obtain k where k: "k \<le> length (c # t)" "like_match ps (drop k (c # t))" by blast
    show "like_match ps (c # t) \<or> (\<exists>k \<le> length t. like_match ps (drop k t))"
    proof (cases k)
      case 0
      with k show ?thesis by simp
    next
      case (Suc k')
      with k show ?thesis by auto
    qed
  next
    assume "like_match ps (c # t) \<or> (\<exists>k \<le> length t. like_match ps (drop k t))"
    then show "\<exists>k \<le> length (c # t). like_match ps (drop k (c # t))"
    proof
      assume "like_match ps (c # t)"
      then have "like_match ps (drop 0 (c # t))" by simp
      then show ?thesis by blast
    next
      assume "\<exists>k \<le> length t. like_match ps (drop k t)"
      then obtain k where "k \<le> length t" "like_match ps (drop k t)" by blast
      then have "Suc k \<le> length (c # t)" "like_match ps (drop (Suc k) (c # t))" by simp_all
      then show ?thesis by blast
    qed
  qed
  with Cons show ?case by simp
qed

lemma sublist_drop_prefix: "sublist xs ys \<longleftrightarrow> (\<exists>k \<le> length ys. prefix xs (drop k ys))"
proof
  assume "sublist xs ys"
  then obtain ps ss where "ys = ps @ xs @ ss" by (auto simp: sublist_def)
  then have "length ps \<le> length ys" "prefix xs (drop (length ps) ys)" by simp_all
  then show "\<exists>k \<le> length ys. prefix xs (drop k ys)" by blast
next
  assume "\<exists>k \<le> length ys. prefix xs (drop k ys)"
  then obtain k ss where "drop k ys = xs @ ss" by (auto simp: prefix_def)
  then have "ys = take k ys @ xs @ ss" by (metis append_take_drop_id)
  then show "sublist xs ys" unfolding sublist_def by blast
qed

lemma like_match_contains:
  assumes "\<forall>c \<in> set ps. c \<noteq> CHR ''%'' \<and> c \<noteq> CHR ''_'' \<and> c \<noteq> CHR 0x5C"
  shows "like_match (CHR ''%'' # ps @ ''%'') t \<longleftrightarrow> sublist ps t"
  by (simp only: like_match_percent_first like_match_plain_then_percent [OF assms]
      sublist_drop_prefix)


lemma pg_lower_code: "of_char (pg_lower c) = (if 65 \<le> (of_char c :: nat) \<and> (of_char c :: nat) \<le> 90
    then of_char c + 32 else (of_char c :: nat))"
proof -
  have small: "(of_char c :: nat) < 256" by simp
  show ?thesis
    using small by (auto simp: pg_lower_def less_eq_char_def)
qed

lemma pg_lower_wildcard:
  "pg_lower c = CHR ''%'' \<longleftrightarrow> c = CHR ''%''"
  "pg_lower c = CHR ''_'' \<longleftrightarrow> c = CHR ''_''"
  "pg_lower c = CHR 0x5C \<longleftrightarrow> c = CHR 0x5C"
proof -
  have eq: "x = y \<longleftrightarrow> (of_char x :: nat) = of_char y" for x y :: char
    by (auto dest: injD [OF inj_of_char])
  show "pg_lower c = CHR ''%'' \<longleftrightarrow> c = CHR ''%''"
    unfolding eq [of "pg_lower c"] eq [of c] pg_lower_code by auto
  show "pg_lower c = CHR ''_'' \<longleftrightarrow> c = CHR ''_''"
    unfolding eq [of "pg_lower c"] eq [of c] pg_lower_code by auto
  show "pg_lower c = CHR 0x5C \<longleftrightarrow> c = CHR 0x5C"
    unfolding eq [of "pg_lower c"] eq [of c] pg_lower_code by auto
qed


lemma ilike_plain_text:
  assumes "plain_text q"
  shows "ilike name (star_to_percent (''%'' @ q @ ''%'')) \<longleftrightarrow> contains_ci name q"
proof -
  have "map (\<lambda>c. if c = CHR ''*'' then CHR ''%'' else c) q = q"
    using assms by (intro map_idI) (simp add: plain_text_def)
  then have pat: "star_to_percent (''%'' @ q @ ''%'') = CHR ''%'' # q @ ''%''"
    by (simp add: star_to_percent_def)
  have pct: "pg_lower CHR ''%'' = CHR ''%''"
    using pg_lower_wildcard(1) [of "CHR ''%''"] by simp
  have low: "map pg_lower (CHR ''%'' # q @ ''%'') = CHR ''%'' # map pg_lower q @ ''%''"
    by (simp add: pct)
  have plain: "\<forall>c \<in> set (map pg_lower q). c \<noteq> CHR ''%'' \<and> c \<noteq> CHR ''_'' \<and> c \<noteq> CHR 0x5C"
    using assms by (auto simp: plain_text_def pg_lower_wildcard)
  show ?thesis
    unfolding ilike_def contains_ci_def pat low by (rule like_match_contains [OF plain])
qed

lemma select_catalog_rows:
  assumes "select_catalog cat q db = Inr (db', rows)"
  shows "db' = db"
    and "\<forall>p \<in> set rows. p \<in> set (products db) \<and> 0 < product_stock p"
    and "cat = Some c \<Longrightarrow> c \<noteq> [] \<Longrightarrow> \<forall>p \<in> set rows. product_category_id p = Some c"
    and "q \<noteq> [] \<Longrightarrow> \<forall>p \<in> set rows. ilike (product_name p) (star_to_percent (''%'' @ q @ ''%''))"
    and "sorted (map catalog_key rows)"
  using assms by (auto simp: select_catalog_def Let_def split: option.splits if_splits)

lemma fetchProducts_reads_only: "fst (fetchProducts e st db) = db"
proof -
  obtain db' r where c: "request (net e 0) (select_catalog (selectedCategory st) (searchQuery st)) db = (db', r)"
    by (cases "request (net e 0) (select_catalog (selectedCategory st) (searchQuery st)) db")
  have "db' = db"
  proof (cases "\<exists>rows. r = Resolved (Data rows)")
    case True
    then obtain rows where "r = Resolved (Data rows)" by blast
    with c have "select_catalog (selectedCategory st) (searchQuery st) db = Inr (db', rows)"
      by (simp add: request_Data)
    then show ?thesis by (rule select_catalog_rows(1))
  next
    case False
    then show ?thesis
      using c by (cases "net e 0") (auto simp: request_def split: sum.splits)
  qed
  then show ?thesis
    using c by (cases r) (auto simp: fetchProducts_def split: response.splits)
qed

text \<open>
  On a search text without \<^verbatim>\<open>%\<close>, \<^verbatim>\<open>_\<close>, backslash and \<^verbatim>\<open>*\<close> the filter is the containment
  that the specification describes.
\<close>

lemma search_plain_text_contains:
  assumes "plain_text q" and "q \<noteq> []" and "select_catalog cat q db = Inr (db', rows)"
  shows "\<forall>p \<in> set rows. contains_ci (product_name p) q"
  using select_catalog_rows(4) [OF assms(3,2)] ilike_plain_text [OF assms(1)] by simp


lemma lower_names:
  "map pg_lower ''Paracetamol 500mg'' = ''paracetamol 500mg''"
  "map pg_lower ''Tolak Angin'' = ''tolak angin''"
  "map pg_lower ''%_%'' = ''%_%''" "map pg_lower ''_'' = ''_''"
  by code_simp+

lemma underscore_matches:
  "like_match ''%_%'' ''paracetamol 500mg''" "like_match ''%_%'' ''tolak angin''"
  by simp_all

lemma underscore_not_contained:
  "\<not> contains_ci ''Paracetamol 500mg'' ''_''" "\<not> contains_ci ''Tolak Angin'' ''_''"
  unfolding contains_ci_def lower_names by (simp_all add: sublist_Cons_right)


lemma catalog_order:
  "sort_key catalog_key [paracetamol, tolak_angin] = [tolak_angin, paracetamol]"
  by (simp add: catalog_key_def popular_rank_def product_fields)

lemma underscore_pattern: "star_to_percent (''%'' @ ''_'' @ ''%'') = ''%_%''"
  by (simp add: star_to_percent_def)

lemma underscore_ilike:
  "ilike (product_name paracetamol) ''%_%''" "ilike (product_name tolak_angin) ''%_%''"
  by (simp_all only: ilike_def product_fields lower_names underscore_matches)


lemma search_underscore_query:
  "select_catalog None ''_'' shop = Inr (shop, [tolak_angin, paracetamol])"
proof -
  have stocked: "filter (\<lambda>p. product_stock p > 0) (products shop) = [paracetamol, tolak_angin]"
    by (simp add: shop_tables product_fields)
  have matched: "filter (\<lambda>p. ilike (product_name p) ''%_%'') [paracetamol, tolak_angin]
      = [paracetamol, tolak_angin]"
    by (simp only: filter.simps underscore_ilike if_True)
  show ?thesis
    unfolding select_catalog_def Let_def underscore_pattern stocked
    by (simp only: option.case matched catalog_order list.distinct if_False)
qed


text \<open>
  C5. The search text "_" in the shop: \<^verbatim>\<open>fetchProducts\<close> shows both products, and neither
  name contains an underscore. The text goes into the ILIKE pattern as it is typed, so
  \<^verbatim>\<open>_\<close> stands for any one character (and \<^verbatim>\<open>%\<close> or \<^verbatim>\<open>*\<close> for any sequence). The database is
  left as it was, and the rows come in the order of the query.
\<close>

theorem search_underscore_returns_every_product:
  "fetchProducts calm \<lparr>page_products = [], searchQuery = ''_'', selectedCategory = None\<rparr> shop
     = (shop, \<lparr>page_products = [tolak_angin, paracetamol], searchQuery = ''_'',
               selectedCategory = None\<rparr>, no_notice)
   \<and> \<not> contains_ci (product_name tolak_angin) ''_''
   \<and> \<not> contains_ci (product_name paracetamol) ''_''"
proof -
  have run: "request (net calm 0) (select_catalog None ''_'') shop
      = (shop, Resolved (Data [tolak_angin, paracetamol]))"
    by (simp add: request_def calm_fields search_underscore_query)
  have "fetchProducts calm \<lparr>page_products = [], searchQuery = ''_'', selectedCategory = None\<rparr> shop
     = (shop, \<lparr>page_products = [tolak_angin, paracetamol], searchQuery = ''_'',
               selectedCategory = None\<rparr>, no_notice)"
    unfolding fetchProducts_def by (simp add: run)
  moreover have "\<not> contains_ci (product_name tolak_angin) ''_''"
    "\<not> contains_ci (product_name paracetamol) ''_''"
    by (simp_all only: product_fields underscore_not_contained not_False_eq_True)
  ultimately show ?thesis by blast
qed


section \<open>The invoice\<close>

lemma customer_amounts:
  "format_idr plain_intl 800000 = ''Rp 8000''" "format_idr plain_intl 1600000 = ''Rp 16000''"
  "string_of_int 2 = ''2''" "locale_date plain_intl s = s"
  by (simp_all add: plain_intl_def string_of_int_def string_of_nat.simps digit_char_values)

lemma customer_invoice_item:
  "invoice_item plain_intl 0 (hd (view_order_items customer_view)) =
     ''\<newline>1. Paracetamol 500mg\<newline>   2 x Rp 8000 = Rp 16000\<newline>''"
  by (simp add: invoice_item_def customer_view_def customer_amounts nl_def string_of_nat_values)


lemma trim_framed:
  "\<not> is_white_space (hd s) \<Longrightarrow> \<not> is_white_space (last s) \<Longrightarrow> s \<noteq> [] \<Longrightarrow>
     trim (CHR 0x0A # s @ ''\<newline>    '') = s"
proof -
  assume h: "\<not> is_white_space (hd s)" and l: "\<not> is_white_space (last s)" and ne: "s \<noteq> []"
  have w: "is_white_space (CHR 0x0A)" "is_white_space CHR '' ''"
    by (simp_all add: is_white_space_def)
  obtain c t where s: "s = c # t" using ne by (cases s) auto
  have front: "dropWhile is_white_space (CHR 0x0A # s @ ''\<newline>    '') = s @ ''\<newline>    ''"
    using h w s by simp
  obtain u d where r: "rev s = d # u" using ne by (cases "rev s") auto
  then have "d = last s" by (metis last_rev list.sel(1) rev_rev_ident hd_rev)
  with l have nd: "\<not> is_white_space d" by simp
  have "rev (s @ ''\<newline>    '') = ''    \<newline>'' @ rev s" by simp
  then have "dropWhile is_white_space (rev (s @ ''\<newline>    '')) = rev s"
    using w nd r by simp
  then show ?thesis
    unfolding trim_def front by simp
qed

lemma customer_invoice_text:
  "invoiceContent plain_intl customer_view = customer_invoice"
proof -
  have body: "invoiceContent plain_intl customer_view = trim (CHR 0x0A # customer_invoice @ ''\<newline>    '')"
    using customer_invoice_item
    by (simp add: invoiceContent_def customer_view_def customer_amounts nl_def getStatusText_def
        customer_invoice_def)
  show ?thesis
    unfolding body by (rule trim_framed) (simp_all add: is_white_space_def customer_invoice_def)
qed

lemma getStatusText_inherited:
  "getStatusText I ''shipped'' = ''Dikirim''" "getStatusText I ''refunded'' = ''refunded''"
  "getStatusText I ''constructor'' = inherited_text I ''constructor''"
  by (simp_all add: getStatusText_def object_prototype_members_def)

text \<open>
  C8. \<^verbatim>\<open>downloadInvoice\<close> makes no request and leaves the database as it is. The file it
  hands to the browser depends on the order alone (and on the platform's two formatting
  functions): two downloads of an order save two files with the same name and the same
  content, and the file is the same whatever the browser and the database hold.
\<close>

theorem downloadInvoice_same_file_no_request:
  "backend (downloadInvoice I ord w) = backend w
   \<and> downloads (downloadInvoice I ord (downloadInvoice I ord w)) =
       downloads w @ [(''Invoice-'' @ view_order_number ord @ ''.txt'', invoiceContent I ord),
                      (''Invoice-'' @ view_order_number ord @ ''.txt'', invoiceContent I ord)]
   \<and> last (downloads (downloadInvoice I ord w)) = last (downloads (downloadInvoice I ord w'))"
  by (simp add: downloadInvoice_def)

theorem downloadInvoice_same_file_no_request_witness:
  "backend (downloadInvoice plain_intl customer_view fresh_browser) = shop
   \<and> downloads (downloadInvoice plain_intl customer_view
         (downloadInvoice plain_intl customer_view fresh_browser)) =
       [(''Invoice-WM1762000000000.txt'', customer_invoice),
        (''Invoice-WM1762000000000.txt'', customer_invoice)]"
proof -
  note inst = downloadInvoice_same_file_no_request [of plain_intl customer_view fresh_browser]
  have name: "''Invoice-'' @ view_order_number customer_view @ ''.txt'' = ''Invoice-WM1762000000000.txt''"
    by (simp add: customer_view_def)
  have start: "backend fresh_browser = shop" "downloads fresh_browser = []"
    by (simp_all add: fresh_browser_def)
  show ?thesis
    using inst [THEN conjunct1] inst [THEN conjunct2, THEN conjunct1]
    unfolding name customer_invoice_text start by simp
qed

end
